theory Spec2Isabelle
  imports Complex_Main "HOL-Library.AList"
begin

section \<open>Data model\<close>

text \<open>
  The service keeps one module-level dictionary \<open>cache\<close> from key strings to entries
  \<open>{"data": ..., "expires_at": ...}\<close>. A Python dictionary iterates in insertion order,
  assigning to a present key keeps its position, and \<open>min\<close> returns the first minimal
  element in iteration order; so the dictionary is an association list in insertion
  order whose keys are distinct (\<open>wf_cache\<close>). \<open>AList.update\<close> is the assignment
  \<open>cache[key] = entry\<close> and \<open>AList.delete\<close> is \<open>del cache[key]\<close>.

  A \<open>datetime\<close> is a count of microseconds, an \<open>int\<close>; the range limits of the
  \<open>datetime\<close> type (years 1 to 9999) are not modelled. The numbers of a transcript
  entry are only passed through, never computed with.
\<close>

type_synonym timestamp = int

datatype number = PyInt int | PyFloat real

record segment =
  seg_text :: string
  seg_start :: number
  seg_duration :: number

text \<open>
  The result dictionary built at lines 216-232: the key \<open>"segments"\<close> is present only
  when line 232 ran, so the field is an option.
\<close>

record result =
  res_video_id :: string
  res_text :: string
  res_language_used :: string
  res_request_id :: string
  res_segments :: "segment list option"

record cache_entry =
  data :: result
  expires_at :: timestamp

type_synonym cache = "(string \<times> cache_entry) list"

text \<open>
  Exceptions as values. The four provider classes are siblings, so an \<open>except\<close>
  clause for one never catches another; every other exception is \<open>OtherException\<close>
  with its \<open>str(e)\<close>.
\<close>

datatype exc =
  TranscriptsDisabled
  | NoTranscriptFound
  | VideoUnavailable
  | TooManyRequests
  | OtherException string

section \<open>The cache (lines 34-84)\<close>

definition CACHE_MAX_SIZE :: nat where
  "CACHE_MAX_SIZE = 256"

definition wf_cache :: "cache \<Rightarrow> bool" where
  "wf_cache c = distinct (map fst c)"

text \<open>\<open>timedelta(seconds=n)\<close> in microseconds.\<close>

definition timedelta_seconds :: "int \<Rightarrow> int" where
  "timedelta_seconds n = n * 1000000"

text \<open>\<open>f"{video_id}:{lang}"\<close> (line 57).\<close>

definition get_cache_key :: "string \<Rightarrow> string \<Rightarrow> string" where
  "get_cache_key video_id lang = video_id @ '':'' @ lang"

text \<open>
  \<open>get_from_cache\<close> (lines 60-70), with the clock reading \<open>now\<close> as an argument. It
  returns the value and the dictionary as the call leaves it.
\<close>

definition get_from_cache :: "timestamp \<Rightarrow> string \<Rightarrow> cache \<Rightarrow> result option \<times> cache" where
  "get_from_cache now key c =
     (case map_of c key of
        None \<Rightarrow> (None, c)
      | Some entry \<Rightarrow>
          if now > expires_at entry then (None, AList.delete key c)
          else (Some (data entry), c))"

text \<open>
  \<open>min(cache.keys(), key=lambda k: cache[k]["expires_at"])\<close> (line 78): a scan from
  left to right that replaces the best key only by a strictly smaller one, and raises
  \<open>ValueError\<close> on an empty dictionary. The scan runs over the items, so that
  \<open>cache[k]\<close> is the entry stored beside \<open>k\<close>.
\<close>

fun min_scan :: "string \<times> cache_entry \<Rightarrow> cache \<Rightarrow> string \<times> cache_entry" where
  "min_scan best [] = best"
| "min_scan best (p # ps) =
     min_scan (if expires_at (snd p) < expires_at (snd best) then p else best) ps"

definition oldest_key :: "cache \<Rightarrow> exc + string" where
  "oldest_key c =
     (case c of
        [] \<Rightarrow> Inl (OtherException ''min() arg is an empty sequence'')
      | p # ps \<Rightarrow> Inr (fst (min_scan p ps)))"

text \<open>
  \<open>set_cache\<close> (lines 73-84); \<open>ttl\<close> is \<open>CACHE_TTL_SECONDS\<close>, read from the
  environment at start-up, and \<open>now\<close> the clock reading of line 83. The sum of line 83
  is taken in the integers: the \<open>OverflowError\<close> that Python raises when the sum leaves
  the range of \<open>datetime\<close> (after the deletion of line 79, before any insertion) is not
  a branch of the model, so what follows holds for clock readings and TTLs whose sum
  is a \<open>datetime\<close>.
\<close>

definition set_cache :: "int \<Rightarrow> timestamp \<Rightarrow> string \<Rightarrow> result \<Rightarrow> cache \<Rightarrow> exc + cache" where
  "set_cache ttl now key d c =
     (if length c \<ge> CACHE_MAX_SIZE then
        (case oldest_key c of
           Inl e \<Rightarrow> Inl e
         | Inr oldest \<Rightarrow>
             Inr (AList.update key \<lparr>data = d, expires_at = now + timedelta_seconds ttl\<rparr>
                    (AList.delete oldest c)))
      else Inr (AList.update key \<lparr>data = d, expires_at = now + timedelta_seconds ttl\<rparr> c))"

text \<open>A sequence of \<open>set_cache\<close> calls, each with its own clock reading.\<close>

fun set_cache_all :: "int \<Rightarrow> (timestamp \<times> string \<times> result) list \<Rightarrow> cache \<Rightarrow> exc + cache" where
  "set_cache_all ttl [] c = Inr c"
| "set_cache_all ttl ((now, key, d) # calls) c =
     (case set_cache ttl now key d c of
        Inl e \<Rightarrow> Inl e
      | Inr c' \<Rightarrow> set_cache_all ttl calls c')"

section \<open>The request handler (lines 120-300)\<close>

text \<open>
  The transcript provider is an external library. Each of its calls either returns or
  raises, so the provider is a record of functions into \<open>exc + _\<close>, over a type
  \<open>'c\<close> of catalogues (\<open>TranscriptList\<close>) and a type \<open>'t\<close> of tracks
  (\<open>Transcript\<close>): \<open>list_transcripts\<close> is line 180, \<open>find_transcript\<close> line 189,
  \<open>enumerate_tracks\<close> is \<open>list(transcript_list)\<close> of line 196, \<open>translate\<close> line 198
  and \<open>fetch\<close> line 210. A \<open>Transcript\<close> object defines neither \<open>__bool__\<close> nor
  \<open>__len__\<close>, so it is truthy at line 206.

  An entry of the fetched data is a dictionary; a field is \<open>None\<close> when its key is
  missing.
\<close>

record raw_item =
  item_text :: "string option"
  item_start :: "number option"
  item_duration :: "number option"

record ('c, 't) provider =
  list_transcripts :: "string \<Rightarrow> exc + 'c"
  find_transcript :: "'c \<Rightarrow> string list \<Rightarrow> exc + 't"
  enumerate_tracks :: "'c \<Rightarrow> exc + 't list"
  translate :: "'t \<Rightarrow> string \<Rightarrow> exc + 't"
  fetch :: "'t \<Rightarrow> exc + raw_item list"

text \<open>The environment read at start-up (lines 29-31).\<close>

record config =
  api_key :: string
  cache_ttl_seconds :: int

text \<open>
  An \<open>HTTPException\<close>: its status and, of its \<open>detail\<close> dictionary, the \<open>error\<close>
  code and the diagnostic of line 297. The fixed \<open>message\<close> texts and the
  \<open>request_id\<close> of the detail are left out.
\<close>

record http_exception =
  status_code :: nat
  error_code :: string
  diagnostic :: "string option"

text \<open>
  The two shapes of a response body: the three keys of lines 169-173 and 241-245, or the
  whole result dictionary (lines 174 and 247).
\<close>

datatype response =
  TextResponse string string string
  | JsonResponse result

definition DEFAULT_LANGUAGES :: "string list" where
  "DEFAULT_LANGUAGES = [''pt-BR'', ''pt'', ''pt-PT'', ''en'']"

text \<open>Lines 154-157: \<open>if lang:\<close> is false for a missing and for an empty parameter.\<close>

definition languages_of :: "string option \<Rightarrow> string list" where
  "languages_of lang =
     (case lang of
        None \<Rightarrow> DEFAULT_LANGUAGES
      | Some l \<Rightarrow> if l \<noteq> [] then [l] else DEFAULT_LANGUAGES)"

text \<open>\<open>sep.join(xs)\<close>.\<close>

fun join :: "string \<Rightarrow> string list \<Rightarrow> string" where
  "join sep [] = []"
| "join sep [x] = x"
| "join sep (x # y # ys) = x @ sep @ join sep (y # ys)"

text \<open>
  The loop of lines 187-204 over the remaining languages, with the two variables
  \<open>transcript\<close> and \<open>language_used\<close> as its state. A \<open>break\<close> returns the state; a
  \<open>continue\<close>, and the end of the handler at line 200 when the catalogue is empty, go
  on with the next language.
\<close>

fun select_transcript ::
  "('c, 't) provider \<Rightarrow> 'c \<Rightarrow> string list \<Rightarrow> 't option \<times> string option \<Rightarrow> 't option \<times> string option" where
  "select_transcript p transcript_list [] (transcript, language_used) = (transcript, language_used)"
| "select_transcript p transcript_list (preferred_lang # rest) (transcript, language_used) =
     (case find_transcript p transcript_list [preferred_lang] of
        Inr t \<Rightarrow> (Some t, Some preferred_lang)
      | Inl e \<Rightarrow>
          if e = NoTranscriptFound \<or> e = TranscriptsDisabled then
            (case enumerate_tracks p transcript_list of
               Inl e1 \<Rightarrow> select_transcript p transcript_list rest (transcript, language_used)
             | Inr available_transcripts \<Rightarrow>
                 (case available_transcripts of
                    [] \<Rightarrow> select_transcript p transcript_list rest (transcript, language_used)
                  | first # others \<Rightarrow>
                      (case translate p first preferred_lang of
                         Inr t \<Rightarrow> (Some t, Some preferred_lang)
                       | Inl e2 \<Rightarrow>
                           select_transcript p transcript_list rest (transcript, language_used))))
          else select_transcript p transcript_list rest (transcript, language_used))"

text \<open>\<open>str(KeyError(k))\<close> is the key in single quotes.\<close>

definition key_error :: "string \<Rightarrow> exc" where
  "key_error k = OtherException ([CHR 0x27] @ k @ [CHR 0x27])"

text \<open>Line 213: \<open>[item["text"] for item in transcript_data]\<close>.\<close>

fun item_texts :: "raw_item list \<Rightarrow> exc + string list" where
  "item_texts [] = Inr []"
| "item_texts (item # items) =
     (case item_text item of
        None \<Rightarrow> Inl (key_error ''text'')
      | Some t \<Rightarrow>
          (case item_texts items of
             Inl e \<Rightarrow> Inl e
           | Inr ts \<Rightarrow> Inr (t # ts)))"

text \<open>Lines 225-231: the loop that builds the segments.\<close>

fun build_segments :: "raw_item list \<Rightarrow> exc + segment list" where
  "build_segments [] = Inr []"
| "build_segments (item # items) =
     (case item_text item of
        None \<Rightarrow> Inl (key_error ''text'')
      | Some t \<Rightarrow>
          (case item_start item of
             None \<Rightarrow> Inl (key_error ''start'')
           | Some s \<Rightarrow>
               (case build_segments items of
                  Inl e \<Rightarrow> Inl e
                | Inr segs \<Rightarrow>
                    Inr (\<lparr>seg_text = t, seg_start = s,
                          seg_duration = (case item_duration item of None \<Rightarrow> PyInt 0 | Some d \<Rightarrow> d)\<rparr>
                         # segs))))"

text \<open>Line 219: \<open>language_used or "unknown"\<close>.\<close>

definition or_unknown :: "string option \<Rightarrow> string" where
  "or_unknown language_used =
     (case language_used of
        None \<Rightarrow> ''unknown''
      | Some l \<Rightarrow> if l \<noteq> [] then l else ''unknown'')"

text \<open>Lines 216-232: the result dictionary.\<close>

definition build_result ::
  "string \<Rightarrow> string \<Rightarrow> string option \<Rightarrow> string \<Rightarrow> string \<Rightarrow> raw_item list \<Rightarrow> exc + result" where
  "build_result video_id full_text language_used request_id format transcript_data =
     (let result = \<lparr>res_video_id = video_id, res_text = full_text,
                     res_language_used = or_unknown language_used,
                     res_request_id = request_id, res_segments = None\<rparr>
      in if format = ''json'' then
           (case build_segments transcript_data of
              Inl e \<Rightarrow> Inl e
            | Inr segs \<Rightarrow> Inr (result\<lparr>res_segments := Some segs\<rparr>))
         else Inr result)"

text \<open>Lines 168-174 and 240-247: the body returned for a result.\<close>

definition render :: "string \<Rightarrow> result \<Rightarrow> string \<Rightarrow> response" where
  "render format result request_id =
     (if format = ''text'' then TextResponse (res_video_id result) (res_text result) request_id
      else JsonResponse result)"

text \<open>
  The body of the \<open>try\<close> (lines 178-247), run after a cache miss: the exception that
  leaves it, or the response, and the cache. \<open>now\<close> is the clock reading inside
  \<open>set_cache\<close>.
\<close>

definition fetch_transcript ::
  "config \<Rightarrow> ('c, 't) provider \<Rightarrow> timestamp \<Rightarrow> string \<Rightarrow> string \<Rightarrow> string list \<Rightarrow> string \<Rightarrow> string
     \<Rightarrow> cache \<Rightarrow> (exc + response) \<times> cache" where
  "fetch_transcript cfg p now request_id video_id languages format cache_key c =
     (case list_transcripts p video_id of
        Inl e \<Rightarrow> (Inl e, c)
      | Inr transcript_list \<Rightarrow>
          (case select_transcript p transcript_list languages (None, None) of
             (None, language_used) \<Rightarrow> (Inl NoTranscriptFound, c)
           | (Some transcript, language_used) \<Rightarrow>
               (case fetch p transcript of
                  Inl e \<Rightarrow> (Inl e, c)
                | Inr transcript_data \<Rightarrow>
                    (case item_texts transcript_data of
                       Inl e \<Rightarrow> (Inl e, c)
                     | Inr texts \<Rightarrow>
                         (case build_result video_id (join '' '' texts) language_used request_id
                                 format transcript_data of
                            Inl e \<Rightarrow> (Inl e, c)
                          | Inr result \<Rightarrow>
                              (case set_cache (cache_ttl_seconds cfg) now cache_key result c of
                                 Inl e \<Rightarrow> (Inl e, c)
                               | Inr c' \<Rightarrow> (Inr (render format result request_id), c')))))))"

text \<open>The \<open>except\<close> clauses of lines 249-300.\<close>

definition http_error_of :: "exc \<Rightarrow> http_exception" where
  "http_error_of e =
     (case e of
        TranscriptsDisabled \<Rightarrow>
          \<lparr>status_code = 404, error_code = ''no_transcript'', diagnostic = None\<rparr>
      | NoTranscriptFound \<Rightarrow>
          \<lparr>status_code = 404, error_code = ''no_transcript'', diagnostic = None\<rparr>
      | VideoUnavailable \<Rightarrow>
          \<lparr>status_code = 404, error_code = ''video_unavailable'', diagnostic = None\<rparr>
      | TooManyRequests \<Rightarrow>
          \<lparr>status_code = 429, error_code = ''rate_limited'', diagnostic = None\<rparr>
      | OtherException error_msg \<Rightarrow>
          \<lparr>status_code = 500, error_code = ''internal_error'',
           diagnostic = Some (if error_msg \<noteq> [] then take 100 error_msg else ''Erro desconhecido'')\<rparr>)"

text \<open>
  \<open>get_transcript\<close> (lines 121-300). \<open>now_get\<close> is the clock reading inside
  \<open>get_from_cache\<close> and \<open>now_set\<close> the one inside \<open>set_cache\<close>; \<open>request_id\<close> is the
  identifier the middleware drew for the request. A cached result is a dictionary with
  keys, so it is truthy at line 162.
\<close>

definition get_transcript ::
  "config \<Rightarrow> ('c, 't) provider \<Rightarrow> timestamp \<Rightarrow> timestamp \<Rightarrow> string \<Rightarrow> string \<Rightarrow> string option \<Rightarrow> string
     \<Rightarrow> string option \<Rightarrow> cache \<Rightarrow> (http_exception + response) \<times> cache" where
  "get_transcript cfg p now_get now_set request_id video_id lang format x_api_key c =
     (if api_key cfg \<noteq> [] \<and>
         (x_api_key = None \<or> x_api_key = Some [] \<or> x_api_key \<noteq> Some (api_key cfg)) then
        (Inl \<lparr>status_code = 401, error_code = ''unauthorized'', diagnostic = None\<rparr>, c)
      else if format \<notin> set [''text'', ''json''] then
        (Inl \<lparr>status_code = 400, error_code = ''invalid_format'', diagnostic = None\<rparr>, c)
      else
        (let languages = languages_of lang;
             cache_key = get_cache_key video_id (join '','' languages)
         in case get_from_cache now_get cache_key c of
              (Some cached_result, c1) \<Rightarrow>
                (Inr (render format (cached_result\<lparr>res_request_id := request_id\<rparr>) request_id), c1)
            | (None, c1) \<Rightarrow>
                (case fetch_transcript cfg p now_set request_id video_id languages format cache_key c1 of
                   (Inl e, c2) \<Rightarrow> (Inl (http_error_of e), c2)
                 | (Inr r, c2) \<Rightarrow> (Inr r, c2))))"

text \<open>
  The resolution order in the words of the specification, to compare the loop with: one
  candidate language is tried by an exact match first and, only when that raises
  not-found or disabled, by a translation of the first track of the catalogue; the
  first candidate of the list for which a try succeeds wins.
\<close>

definition try_candidate :: "('c, 't) provider \<Rightarrow> 'c \<Rightarrow> string \<Rightarrow> 't option" where
  "try_candidate p transcript_list l =
     (case find_transcript p transcript_list [l] of
        Inr t \<Rightarrow> Some t
      | Inl e \<Rightarrow>
          if e = NoTranscriptFound \<or> e = TranscriptsDisabled then
            (case enumerate_tracks p transcript_list of
               Inr (first # others) \<Rightarrow>
                 (case translate p first l of Inr t \<Rightarrow> Some t | Inl e2 \<Rightarrow> None)
             | _ \<Rightarrow> None)
          else None)"

fun first_success :: "('c, 't) provider \<Rightarrow> 'c \<Rightarrow> string list \<Rightarrow> ('t \<times> string) option" where
  "first_success p transcript_list [] = None"
| "first_success p transcript_list (l # ls) =
     (case try_candidate p transcript_list l of
        Some t \<Rightarrow> Some (t, l)
      | None \<Rightarrow> first_success p transcript_list ls)"

section \<open>Example states\<close>

text \<open>
  A cache filled by requests for the videos \<open>v\<close>, \<open>vv\<close>, \<open>vvv\<close>, ... with
  \<open>lang=en\<close>, the \<open>i\<close>-th stored at clock reading \<open>i\<close> under a TTL of 3600 seconds.
  \<open>example_cache 1 256\<close> is a full cache; \<open>example_calls\<close> are the \<open>set_cache\<close> calls
  that build it.
\<close>

definition example_result :: "string \<Rightarrow> result" where
  "example_result v =
     \<lparr>res_video_id = v, res_text = ''A B C'', res_language_used = ''en'',
      res_request_id = ''req-1'', res_segments = None\<rparr>"

definition example_key :: "nat \<Rightarrow> string" where
  "example_key i = get_cache_key (replicate i CHR ''v'') ''en''"

definition example_entry :: "nat \<Rightarrow> cache_entry" where
  "example_entry i =
     \<lparr>data = example_result (replicate i CHR ''v''),
      expires_at = int i + timedelta_seconds 3600\<rparr>"

fun example_cache :: "nat \<Rightarrow> nat \<Rightarrow> cache" where
  "example_cache i 0 = []"
| "example_cache i (Suc n) = (example_key i, example_entry i) # example_cache (Suc i) n"

fun example_calls :: "nat \<Rightarrow> nat \<Rightarrow> (timestamp \<times> string \<times> result) list" where
  "example_calls i 0 = []"
| "example_calls i (Suc n) =
     (int i, example_key i, example_result (replicate i CHR ''v'')) # example_calls (Suc i) n"

text \<open>
  A provider for the examples: every video but \<open>gone\<close> has a German and an English
  track in that order, a track can be translated into \<open>xx\<close>, \<open>de\<close> and \<open>en\<close> only, and
  every track has the three entries A, B, C.
\<close>

datatype track = Track string | Translated track string

definition example_items :: "raw_item list" where
  "example_items =
     [\<lparr>item_text = Some ''A'', item_start = Some (PyFloat 0), item_duration = Some (PyFloat 1)\<rparr>,
      \<lparr>item_text = Some ''B'', item_start = Some (PyFloat 1), item_duration = Some (PyFloat 1)\<rparr>,
      \<lparr>item_text = Some ''C'', item_start = Some (PyFloat 2), item_duration = None\<rparr>]"

fun example_find :: "track list \<Rightarrow> string list \<Rightarrow> exc + track" where
  "example_find cat [] = Inl NoTranscriptFound"
| "example_find cat (l # ls) = (if Track l \<in> set cat then Inr (Track l) else example_find cat ls)"

definition example_translate :: "track \<Rightarrow> string \<Rightarrow> exc + track" where
  "example_translate t l =
     (if l \<in> set [''xx'', ''de'', ''en''] then Inr (Translated t l)
      else Inl (OtherException ''translation language not available''))"

definition example_provider :: "(track list, track) provider" where
  "example_provider =
     \<lparr>list_transcripts =
        (\<lambda>v. if v = ''gone'' then Inl VideoUnavailable else Inr [Track ''de'', Track ''en'']),
      find_transcript = example_find,
      enumerate_tracks = Inr,
      translate = example_translate,
      fetch = (\<lambda>t. Inr example_items)\<rparr>"

definition example_config :: config where
  "example_config = \<lparr>api_key = [], cache_ttl_seconds = 3600\<rparr>"

section \<open>Properties of the cache\<close>

lemma min_scan_mem: "min_scan best ps \<in> set (best # ps)"
  by (induction ps arbitrary: best) auto

lemma min_scan_le_best: "expires_at (snd (min_scan best ps)) \<le> expires_at (snd best)"
proof (induction ps arbitrary: best)
  case Nil
  show ?case by simp
next
  case (Cons p ps)
  have "expires_at (snd (min_scan (if expires_at (snd p) < expires_at (snd best) then p else best) ps))
          \<le> expires_at (snd (if expires_at (snd p) < expires_at (snd best) then p else best))"
    by (rule Cons.IH)
  then show ?case by (simp split: if_splits)
qed

lemma min_scan_le: "q \<in> set (best # ps) \<Longrightarrow> expires_at (snd (min_scan best ps)) \<le> expires_at (snd q)"
proof (induction ps arbitrary: best)
  case Nil
  then show ?case by simp
next
  case (Cons p ps)
  let ?b = "if expires_at (snd p) < expires_at (snd best) then p else best"
  from Cons.prems consider "q = best" | "q = p" | "q \<in> set ps" by auto
  then show ?case
  proof cases
    case 1
    have "expires_at (snd (min_scan ?b ps)) \<le> expires_at (snd ?b)" by (rule min_scan_le_best)
    with 1 show ?thesis by (simp split: if_splits)
  next
    case 2
    have "expires_at (snd (min_scan ?b ps)) \<le> expires_at (snd ?b)" by (rule min_scan_le_best)
    with 2 show ?thesis by (simp split: if_splits)
  next
    case 3
    then have "q \<in> set (?b # ps)" by simp
    then have "expires_at (snd (min_scan ?b ps)) \<le> expires_at (snd q)" by (rule Cons.IH)
    then show ?thesis by simp
  qed
qed

lemma oldest_key_nonempty: "c \<noteq> [] \<Longrightarrow> \<exists>k. oldest_key c = Inr k \<and> k \<in> fst ` set c"
proof (cases c)
  case Nil
  assume "c \<noteq> []"
  with Nil show ?thesis by simp
next
  case (Cons p ps)
  have "min_scan p ps \<in> set (p # ps)" by (rule min_scan_mem)
  then have "fst (min_scan p ps) \<in> fst ` set (p # ps)" by (rule imageI)
  with Cons show ?thesis by (simp add: oldest_key_def)
qed

lemma set_cache_total: "\<exists>c'. set_cache ttl now key d c = Inr c'"
proof (cases "length c \<ge> CACHE_MAX_SIZE")
  case True
  then have "c \<noteq> []" by (auto simp: CACHE_MAX_SIZE_def)
  then obtain k where "oldest_key c = Inr k" using oldest_key_nonempty by blast
  with True show ?thesis by (simp add: set_cache_def)
next
  case False
  then show ?thesis by (simp add: set_cache_def)
qed

lemma length_delete_mem:
  "distinct (map fst c) \<Longrightarrow> k \<in> fst ` set c \<Longrightarrow> Suc (length (AList.delete k c)) = length c"
proof (induction c)
  case Nil
  then show ?case by simp
next
  case (Cons p ps)
  show ?case
  proof (cases "fst p = k")
    case True
    with Cons.prems have "k \<notin> fst ` set ps" by auto
    then have "AList.delete k ps = ps" by simp
    with True show ?thesis by (cases p) (simp add: AList.delete_eq)
  next
    case False
    with Cons show ?thesis by (cases p) (auto simp: AList.delete_eq)
  qed
qed

lemma length_update_le: "length (AList.update k v c) \<le> Suc (length c)"
  by (induction c) auto

lemma set_cache_wf: "wf_cache c \<Longrightarrow> set_cache ttl now key d c = Inr c' \<Longrightarrow> wf_cache c'"
  by (auto simp: set_cache_def wf_cache_def AList.distinct_update AList.distinct_delete
      split: if_splits sum.splits)

lemma set_cache_length:
  assumes wf: "wf_cache c" and len: "length c \<le> CACHE_MAX_SIZE"
    and run: "set_cache ttl now key d c = Inr c'"
  shows "length c' \<le> CACHE_MAX_SIZE"
proof (cases "length c \<ge> CACHE_MAX_SIZE")
  case True
  then have "c \<noteq> []" by (auto simp: CACHE_MAX_SIZE_def)
  then obtain k where k: "oldest_key c = Inr k" "k \<in> fst ` set c"
    using oldest_key_nonempty by blast
  from wf k(2) have "Suc (length (AList.delete k c)) = length c"
    by (simp add: wf_cache_def length_delete_mem)
  with len have "Suc (length (AList.delete k c)) \<le> CACHE_MAX_SIZE" by simp
  moreover have "length (AList.update key \<lparr>data = d, expires_at = now + timedelta_seconds ttl\<rparr>
                   (AList.delete k c)) \<le> Suc (length (AList.delete k c))"
    by (rule length_update_le)
  ultimately have "length (AList.update key \<lparr>data = d, expires_at = now + timedelta_seconds ttl\<rparr>
                   (AList.delete k c)) \<le> CACHE_MAX_SIZE"
    by (rule_tac order_trans)
  with True k(1) run show ?thesis by (simp add: set_cache_def)
next
  case False
  then have "Suc (length c) \<le> CACHE_MAX_SIZE" by simp
  moreover have "length (AList.update key \<lparr>data = d, expires_at = now + timedelta_seconds ttl\<rparr> c)
                   \<le> Suc (length c)"
    by (rule length_update_le)
  ultimately have "length (AList.update key \<lparr>data = d, expires_at = now + timedelta_seconds ttl\<rparr> c)
                   \<le> CACHE_MAX_SIZE"
    by (rule_tac order_trans)
  with False run show ?thesis by (simp add: set_cache_def)
qed

lemma set_cache_all_invariant:
  "wf_cache c \<Longrightarrow> length c \<le> CACHE_MAX_SIZE \<Longrightarrow>
     \<exists>c'. set_cache_all ttl calls c = Inr c' \<and> wf_cache c' \<and> length c' \<le> CACHE_MAX_SIZE"
proof (induction calls arbitrary: c)
  case Nil
  then show ?case by simp
next
  case (Cons call calls)
  obtain now key d where call: "call = (now, key, d)" by (cases call) auto
  obtain c1 where c1: "set_cache ttl now key d c = Inr c1" using set_cache_total by blast
  from Cons.prems c1 have "wf_cache c1" "length c1 \<le> CACHE_MAX_SIZE"
    by (auto intro: set_cache_wf set_cache_length)
  then have "\<exists>c'. set_cache_all ttl calls c1 = Inr c' \<and> wf_cache c' \<and> length c' \<le> CACHE_MAX_SIZE"
    by (rule Cons.IH)
  with call c1 show ?case by simp
qed

subsection \<open>Lookups after a call\<close>

lemma map_of_mem_keys: "map_of c k = Some e \<Longrightarrow> k \<in> fst ` set c"
  by (metis domI dom_map_of_conv_image_fst)

lemma map_of_not_keys: "k \<notin> fst ` set c \<Longrightarrow> map_of c k = None"
  by (simp add: map_of_eq_None_iff)

lemma oldest_key_entry:
  assumes wf: "wf_cache c" and ok: "oldest_key c = Inr victim"
  shows "\<exists>entry. map_of c victim = Some entry \<and> (\<forall>q \<in> set c. expires_at entry \<le> expires_at (snd q))"
proof (cases c)
  case Nil
  with ok show ?thesis by (simp add: oldest_key_def)
next
  case (Cons p ps)
  let ?m = "min_scan p ps"
  from ok Cons have victim: "victim = fst ?m" by (simp add: oldest_key_def)
  have mem: "?m \<in> set c" using min_scan_mem [of p ps] Cons by simp
  then have "(fst ?m, snd ?m) \<in> set c" by simp
  with wf have "map_of c (fst ?m) = Some (snd ?m)" by (simp add: wf_cache_def)
  moreover have "\<forall>q \<in> set c. expires_at (snd ?m) \<le> expires_at (snd q)"
    using min_scan_le [of _ p ps] Cons by blast
  ultimately show ?thesis using victim by blast
qed

lemma set_cache_below:
  "length c < CACHE_MAX_SIZE \<Longrightarrow>
     set_cache ttl now key d c =
       Inr (AList.update key \<lparr>data = d, expires_at = now + timedelta_seconds ttl\<rparr> c)"
  by (simp add: set_cache_def)

lemma set_cache_full:
  "length c \<ge> CACHE_MAX_SIZE \<Longrightarrow> oldest_key c = Inr victim \<Longrightarrow>
     set_cache ttl now key d c =
       Inr (AList.update key \<lparr>data = d, expires_at = now + timedelta_seconds ttl\<rparr>
              (AList.delete victim c))"
  by (simp add: set_cache_def)

lemma set_cache_stores:
  "set_cache ttl now key d c = Inr c' \<Longrightarrow>
     map_of c' key = Some \<lparr>data = d, expires_at = now + timedelta_seconds ttl\<rparr>"
  by (auto simp: set_cache_def AList.update_conv' split: if_splits sum.splits)

lemma get_from_cache_fresh:
  "map_of c key = Some e \<Longrightarrow> t \<le> expires_at e \<Longrightarrow> get_from_cache t key c = (Some (data e), c)"
  by (simp add: get_from_cache_def)

lemma get_from_cache_stale:
  "map_of c key = Some e \<Longrightarrow> t > expires_at e \<Longrightarrow>
     get_from_cache t key c = (None, AList.delete key c)"
  by (simp add: get_from_cache_def)

lemma get_from_cache_absent: "map_of c key = None \<Longrightarrow> get_from_cache t key c = (None, c)"
  by (simp add: get_from_cache_def)

subsection \<open>The example cache\<close>

lemma example_key_inj: "example_key i = example_key j \<longleftrightarrow> i = j"
proof
  assume "example_key i = example_key j"
  then have "length (example_key i) = length (example_key j)" by simp
  then show "i = j" by (simp add: example_key_def get_cache_key_def)
qed simp

lemma example_cache_length: "length (example_cache i n) = n"
  by (induction n arbitrary: i) auto

lemma example_cache_mem:
  "q \<in> set (example_cache i n) \<longleftrightarrow>
     (\<exists>j. i \<le> j \<and> j < i + n \<and> q = (example_key j, example_entry j))"
proof (induction n arbitrary: i)
  case 0
  show ?case by simp
next
  case (Suc n)
  have range: "\<And>j P. (i \<le> j \<and> j < i + Suc n \<and> P) = ((j = i \<or> (Suc i \<le> j \<and> j < Suc i + n)) \<and> P)"
    by auto
  have "q \<in> set (example_cache i (Suc n)) \<longleftrightarrow>
          q = (example_key i, example_entry i) \<or>
          (\<exists>j. Suc i \<le> j \<and> j < Suc i + n \<and> q = (example_key j, example_entry j))"
    using Suc [of "Suc i"] by simp
  also have "\<dots> \<longleftrightarrow> (\<exists>j. (j = i \<or> (Suc i \<le> j \<and> j < Suc i + n)) \<and>
                         q = (example_key j, example_entry j))"
    by blast
  finally show ?case by (simp only: range)
qed

lemma example_cache_set:
  "set (example_cache i n) = {(example_key j, example_entry j) | j. i \<le> j \<and> j < i + n}"
  using example_cache_mem [of _ i n] by blast

lemma example_cache_keys:
  "fst ` set (example_cache i n) = {example_key j | j. i \<le> j \<and> j < i + n}"
  by (force simp: example_cache_set)

lemma example_cache_wf: "wf_cache (example_cache i n)"
proof (induction n arbitrary: i)
  case 0
  show ?case by (simp add: wf_cache_def)
next
  case (Suc n)
  have "example_key i \<notin> fst ` set (example_cache (Suc i) n)"
    by (auto simp: example_cache_keys example_key_inj)
  with Suc [of "Suc i"] show ?case by (simp add: wf_cache_def)
qed

lemma example_cache_lookup:
  "i \<le> j \<Longrightarrow> j < i + n \<Longrightarrow> map_of (example_cache i n) (example_key j) = Some (example_entry j)"
proof -
  assume "i \<le> j" "j < i + n"
  then have "(example_key j, example_entry j) \<in> set (example_cache i n)"
    by (auto simp: example_cache_set)
  with example_cache_wf [of i n] show ?thesis by (simp add: wf_cache_def)
qed

lemma min_scan_keeps_best:
  "\<forall>q \<in> set ps. expires_at (snd best) \<le> expires_at (snd q) \<Longrightarrow> min_scan best ps = best"
  by (induction ps) auto

lemma example_cache_oldest: "oldest_key (example_cache i (Suc n)) = Inr (example_key i)"
proof -
  have "\<forall>q \<in> set (example_cache (Suc i) n).
          expires_at (snd (example_key i, example_entry i)) \<le> expires_at (snd q)"
    by (auto simp: example_cache_set example_entry_def)
  then have "min_scan (example_key i, example_entry i) (example_cache (Suc i) n)
               = (example_key i, example_entry i)"
    by (rule min_scan_keeps_best)
  then show ?thesis by (simp add: oldest_key_def)
qed

lemma update_new_key: "k \<notin> fst ` set c \<Longrightarrow> AList.update k v c = c @ [(k, v)]"
  by (induction c) auto

lemma example_calls_build:
  "length c + n \<le> CACHE_MAX_SIZE \<Longrightarrow> \<forall>j \<ge> i. example_key j \<notin> fst ` set c \<Longrightarrow>
     set_cache_all 3600 (example_calls i n) c = Inr (c @ example_cache i n)"
proof (induction n arbitrary: i c)
  case 0
  show ?case by simp
next
  case (Suc n)
  let ?c1 = "c @ [(example_key i, example_entry i)]"
  from Suc.prems(1) have below: "length c < CACHE_MAX_SIZE" by simp
  from Suc.prems(2) have new: "example_key i \<notin> fst ` set c" by simp
  have step: "set_cache 3600 (int i) (example_key i) (example_result (replicate i CHR ''v'')) c = Inr ?c1"
    using below new by (simp add: set_cache_below update_new_key example_entry_def)
  from Suc.prems(1) have "length ?c1 + n \<le> CACHE_MAX_SIZE" by simp
  moreover from Suc.prems(2) have "\<forall>j \<ge> Suc i. example_key j \<notin> fst ` set ?c1"
    by (auto simp: example_key_inj)
  ultimately have "set_cache_all 3600 (example_calls (Suc i) n) ?c1 = Inr (?c1 @ example_cache (Suc i) n)"
    by (rule Suc.IH)
  with step show ?case by simp
qed

lemma example_cache_reachable:
  "set_cache_all 3600 (example_calls 1 256) [] = Inr (example_cache 1 256)"
  using example_calls_build [of "[]" 256 1] by (simp add: CACHE_MAX_SIZE_def)

subsection \<open>Eviction\<close>

lemma delete_key_set: "fst ` set (AList.delete k c) = fst ` set c - {k}"
  by (induction c) auto

text \<open>
  C3. Eviction correctness: when \<open>set_cache\<close> inserts a key that is not in the cache
  while the cache holds \<open>CACHE_MAX_SIZE\<close> entries (or more), the call does not raise,
  and there is one key \<open>victim\<close> of the cache, whose entry has the minimum
  \<open>expires_at\<close> of all entries present before the call, such that the cache after
  the call is the old one with \<open>victim\<close> deleted and the new entry stored: its keys
  are the old keys without \<open>victim\<close>, plus \<open>key\<close>, and every other key keeps its
  entry.
\<close>

theorem eviction_correctness:
  assumes wf: "wf_cache c" and full: "length c \<ge> CACHE_MAX_SIZE" and new: "key \<notin> fst ` set c"
  shows "\<exists>victim entry c'.
           map_of c victim = Some entry \<and>
           (\<forall>q \<in> set c. expires_at entry \<le> expires_at (snd q)) \<and>
           set_cache ttl now key d c = Inr c' \<and>
           c' = AList.update key \<lparr>data = d, expires_at = now + timedelta_seconds ttl\<rparr>
                  (AList.delete victim c) \<and>
           fst ` set c' = insert key (fst ` set c - {victim}) \<and>
           map_of c' victim = None \<and>
           (\<forall>k. k \<noteq> victim \<longrightarrow> k \<noteq> key \<longrightarrow> map_of c' k = map_of c k)"
proof -
  let ?e = "\<lparr>data = d, expires_at = now + timedelta_seconds ttl\<rparr>"
  from full have "c \<noteq> []" by (auto simp: CACHE_MAX_SIZE_def)
  then obtain victim where victim: "oldest_key c = Inr victim" "victim \<in> fst ` set c"
    using oldest_key_nonempty by blast
  from wf victim(1) obtain entry where entry: "map_of c victim = Some entry"
      "\<forall>q \<in> set c. expires_at entry \<le> expires_at (snd q)"
    using oldest_key_entry by blast
  let ?c' = "AList.update key ?e (AList.delete victim c)"
  have run: "set_cache ttl now key d c = Inr ?c'"
    using full victim(1) by (rule set_cache_full)
  have keys: "fst ` set ?c' = insert key (fst ` set c - {victim})"
    by (simp add: AList.dom_update delete_key_set)
  from new victim(2) have ne: "victim \<noteq> key" by auto
  then have gone: "map_of ?c' victim = None"
    by (simp add: AList.update_conv' AList.delete_conv')
  have frame: "\<forall>k. k \<noteq> victim \<longrightarrow> k \<noteq> key \<longrightarrow> map_of ?c' k = map_of c k"
    by (simp add: AList.update_conv' AList.delete_conv')
  from entry run keys gone frame show ?thesis by blast
qed

theorem eviction_correctness_witness:
  "wf_cache (example_cache 1 256) \<and> length (example_cache 1 256) \<ge> CACHE_MAX_SIZE \<and>
   example_key 257 \<notin> fst ` set (example_cache 1 256) \<and>
   (\<exists>victim entry c'.
      map_of (example_cache 1 256) victim = Some entry \<and>
      (\<forall>q \<in> set (example_cache 1 256). expires_at entry \<le> expires_at (snd q)) \<and>
      set_cache 3600 5000 (example_key 257) (example_result (replicate 257 CHR ''v''))
        (example_cache 1 256) = Inr c' \<and>
      c' = AList.update (example_key 257)
             \<lparr>data = example_result (replicate 257 CHR ''v''),
              expires_at = 5000 + timedelta_seconds 3600\<rparr>
             (AList.delete victim (example_cache 1 256)) \<and>
      fst ` set c' = insert (example_key 257) (fst ` set (example_cache 1 256) - {victim}) \<and>
      map_of c' victim = None \<and>
      (\<forall>k. k \<noteq> victim \<longrightarrow> k \<noteq> example_key 257 \<longrightarrow> map_of c' k = map_of (example_cache 1 256) k))"
proof -
  have wf: "wf_cache (example_cache 1 256)" by (rule example_cache_wf)
  have full: "length (example_cache 1 256) \<ge> CACHE_MAX_SIZE"
    by (simp add: example_cache_length CACHE_MAX_SIZE_def)
  have new: "example_key 257 \<notin> fst ` set (example_cache 1 256)"
    by (auto simp: example_cache_keys example_key_inj)
  from wf full new eviction_correctness [OF wf full new] show ?thesis by blast
qed

text \<open>
  C4 as stated fails: the guard of line 76 looks at the size of the cache only. On the
  full example cache a \<open>set_cache\<close> for the key of video \<open>vv\<close>, which is present,
  deletes the entry of video \<open>v\<close>.
\<close>

theorem eviction_on_present_key_counterexample:
  "wf_cache (example_cache 1 256) \<and>
   length (example_cache 1 256) = CACHE_MAX_SIZE \<and>
   map_of (example_cache 1 256) (example_key 2) = Some (example_entry 2) \<and>
   map_of (example_cache 1 256) (example_key 1) = Some (example_entry 1) \<and>
   example_key 1 \<noteq> example_key 2 \<and>
   set_cache 3600 5000 (example_key 2) (example_result ''vv'') (example_cache 1 256)
     = Inr (AList.update (example_key 2)
              \<lparr>data = example_result ''vv'', expires_at = 5000 + timedelta_seconds 3600\<rparr>
              (AList.delete (example_key 1) (example_cache 1 256))) \<and>
   map_of (AList.update (example_key 2)
              \<lparr>data = example_result ''vv'', expires_at = 5000 + timedelta_seconds 3600\<rparr>
              (AList.delete (example_key 1) (example_cache 1 256))) (example_key 1) = None"
proof -
  have len: "length (example_cache 1 256) = CACHE_MAX_SIZE"
    by (simp add: example_cache_length CACHE_MAX_SIZE_def)
  have oldest: "oldest_key (example_cache 1 256) = Inr (example_key 1)"
    using example_cache_oldest [of 1 255] by simp
  have ne: "example_key 1 \<noteq> example_key 2" by (simp add: example_key_inj)
  from len have "length (example_cache 1 256) \<ge> CACHE_MAX_SIZE" by simp
  then have run: "set_cache 3600 5000 (example_key 2) (example_result ''vv'') (example_cache 1 256)
     = Inr (AList.update (example_key 2)
              \<lparr>data = example_result ''vv'', expires_at = 5000 + timedelta_seconds 3600\<rparr>
              (AList.delete (example_key 1) (example_cache 1 256)))"
    using oldest by (rule set_cache_full)
  have gone: "map_of (AList.update (example_key 2)
              \<lparr>data = example_result ''vv'', expires_at = 5000 + timedelta_seconds 3600\<rparr>
              (AList.delete (example_key 1) (example_cache 1 256))) (example_key 1) = None"
    using ne by (simp add: AList.update_conv' AList.delete_conv')
  show ?thesis
    using example_cache_wf [of 1 256] len ne run gone
      example_cache_lookup [of 1 2 256] example_cache_lookup [of 1 1 256]
    by simp
qed

text \<open>
  C4, amended. Eviction depends on the size of the cache alone. A \<open>set_cache\<close> on a
  cache with fewer than \<open>CACHE_MAX_SIZE\<close> entries evicts nothing: it stores the entry
  for its key, the keys afterwards are the old keys and the key, and every other
  key's entry is unchanged. A \<open>set_cache\<close> on a cache with \<open>CACHE_MAX_SIZE\<close> entries
  or more, whether or not its key is present, first deletes one key \<open>victim\<close> of the
  cache, whose entry has the minimum \<open>expires_at\<close> of all entries present before
  the call, and then stores the entry: the keys afterwards are the old keys without
  \<open>victim\<close>, plus the key; every key other than these two keeps its entry, and
  \<open>victim\<close>, when it is another key, is absent afterwards.
\<close>

theorem set_cache_frame:
  assumes wf: "wf_cache c"
  shows
  "(length c < CACHE_MAX_SIZE \<longrightarrow>
      (\<exists>c'. set_cache ttl now key d c = Inr c' \<and>
            c' = AList.update key \<lparr>data = d, expires_at = now + timedelta_seconds ttl\<rparr> c \<and>
            fst ` set c' = insert key (fst ` set c) \<and>
            (\<forall>k. k \<noteq> key \<longrightarrow> map_of c' k = map_of c k))) \<and>
   (length c \<ge> CACHE_MAX_SIZE \<longrightarrow>
      (\<exists>victim entry c'. oldest_key c = Inr victim \<and> victim \<in> fst ` set c \<and>
            map_of c victim = Some entry \<and>
            (\<forall>q \<in> set c. expires_at entry \<le> expires_at (snd q)) \<and>
            set_cache ttl now key d c = Inr c' \<and>
            c' = AList.update key \<lparr>data = d, expires_at = now + timedelta_seconds ttl\<rparr>
                   (AList.delete victim c) \<and>
            fst ` set c' = insert key (fst ` set c - {victim}) \<and>
            (victim \<noteq> key \<longrightarrow> map_of c' victim = None) \<and>
            (\<forall>k. k \<noteq> key \<longrightarrow> k \<noteq> victim \<longrightarrow> map_of c' k = map_of c k)))"
proof (intro conjI impI)
  assume "length c < CACHE_MAX_SIZE"
  then have "set_cache ttl now key d c =
      Inr (AList.update key \<lparr>data = d, expires_at = now + timedelta_seconds ttl\<rparr> c)"
    by (rule set_cache_below)
  then show "\<exists>c'. set_cache ttl now key d c = Inr c' \<and>
            c' = AList.update key \<lparr>data = d, expires_at = now + timedelta_seconds ttl\<rparr> c \<and>
            fst ` set c' = insert key (fst ` set c) \<and>
            (\<forall>k. k \<noteq> key \<longrightarrow> map_of c' k = map_of c k)"
    by (simp add: AList.update_conv' AList.dom_update)
next
  assume full: "length c \<ge> CACHE_MAX_SIZE"
  let ?e = "\<lparr>data = d, expires_at = now + timedelta_seconds ttl\<rparr>"
  from full have "c \<noteq> []" by (auto simp: CACHE_MAX_SIZE_def)
  then obtain victim where victim: "oldest_key c = Inr victim" "victim \<in> fst ` set c"
    using oldest_key_nonempty by blast
  from wf victim(1) obtain entry where entry: "map_of c victim = Some entry"
      "\<forall>q \<in> set c. expires_at entry \<le> expires_at (snd q)"
    using oldest_key_entry by blast
  let ?c' = "AList.update key ?e (AList.delete victim c)"
  from full victim(1) have run: "set_cache ttl now key d c = Inr ?c'"
    by (rule set_cache_full)
  have keys: "fst ` set ?c' = insert key (fst ` set c - {victim})"
    by (simp add: AList.dom_update delete_key_set)
  have gone: "victim \<noteq> key \<longrightarrow> map_of ?c' victim = None"
    by (simp add: AList.update_conv' AList.delete_conv')
  have frame: "\<forall>k. k \<noteq> key \<longrightarrow> k \<noteq> victim \<longrightarrow> map_of ?c' k = map_of c k"
    by (simp add: AList.update_conv' AList.delete_conv')
  show "\<exists>victim entry c'. oldest_key c = Inr victim \<and> victim \<in> fst ` set c \<and>
            map_of c victim = Some entry \<and>
            (\<forall>q \<in> set c. expires_at entry \<le> expires_at (snd q)) \<and>
            set_cache ttl now key d c = Inr c' \<and>
            c' = AList.update key \<lparr>data = d, expires_at = now + timedelta_seconds ttl\<rparr>
                   (AList.delete victim c) \<and>
            fst ` set c' = insert key (fst ` set c - {victim}) \<and>
            (victim \<noteq> key \<longrightarrow> map_of c' victim = None) \<and>
            (\<forall>k. k \<noteq> key \<longrightarrow> k \<noteq> victim \<longrightarrow> map_of c' k = map_of c k)"
    by (rule exI [of _ victim], rule exI [of _ entry], rule exI [of _ ?c'])
       (intro conjI victim entry run keys gone frame refl)
qed

theorem set_cache_frame_witness:
  "wf_cache (example_cache 1 2) \<and>
   length (example_cache 1 2) < CACHE_MAX_SIZE \<and>
   (\<exists>c'. set_cache 3600 5000 (example_key 2) (example_result ''vv'') (example_cache 1 2) = Inr c' \<and>
         c' = AList.update (example_key 2)
                \<lparr>data = example_result ''vv'', expires_at = 5000 + timedelta_seconds 3600\<rparr>
                (example_cache 1 2) \<and>
         fst ` set c' = insert (example_key 2) (fst ` set (example_cache 1 2)) \<and>
         map_of c' (example_key 1) = map_of (example_cache 1 2) (example_key 1)) \<and>
   wf_cache (example_cache 1 256) \<and>
   length (example_cache 1 256) \<ge> CACHE_MAX_SIZE \<and>
   (\<exists>victim entry c'. oldest_key (example_cache 1 256) = Inr victim \<and>
         victim \<in> fst ` set (example_cache 1 256) \<and>
         map_of (example_cache 1 256) victim = Some entry \<and>
         (\<forall>q \<in> set (example_cache 1 256). expires_at entry \<le> expires_at (snd q)) \<and>
         set_cache 3600 5000 (example_key 2) (example_result ''vv'') (example_cache 1 256) = Inr c' \<and>
         c' = AList.update (example_key 2)
                \<lparr>data = example_result ''vv'', expires_at = 5000 + timedelta_seconds 3600\<rparr>
                (AList.delete victim (example_cache 1 256)) \<and>
         fst ` set c' = insert (example_key 2) (fst ` set (example_cache 1 256) - {victim}) \<and>
         map_of c' (example_key 3) = map_of (example_cache 1 256) (example_key 3))"
proof -
  have wf_small: "wf_cache (example_cache 1 2)" by (rule example_cache_wf)
  have wf_full: "wf_cache (example_cache 1 256)" by (rule example_cache_wf)
  have small: "length (example_cache 1 2) < CACHE_MAX_SIZE"
    by (simp add: example_cache_length CACHE_MAX_SIZE_def)
  have full: "length (example_cache 1 256) \<ge> CACHE_MAX_SIZE"
    by (simp add: example_cache_length CACHE_MAX_SIZE_def)
  have oldest: "oldest_key (example_cache 1 256) = Inr (example_key 1)"
    using example_cache_oldest [of 1 255] by simp
  have ne: "example_key 1 \<noteq> example_key 2" "example_key 3 \<noteq> example_key 2"
      "example_key 3 \<noteq> example_key 1"
    by (simp_all add: example_key_inj)
  have below: "\<exists>c'. set_cache 3600 5000 (example_key 2) (example_result ''vv'') (example_cache 1 2) = Inr c' \<and>
         c' = AList.update (example_key 2)
                \<lparr>data = example_result ''vv'', expires_at = 5000 + timedelta_seconds 3600\<rparr>
                (example_cache 1 2) \<and>
         fst ` set c' = insert (example_key 2) (fst ` set (example_cache 1 2)) \<and>
         map_of c' (example_key 1) = map_of (example_cache 1 2) (example_key 1)"
  proof -
    have "length (example_cache 1 2) < CACHE_MAX_SIZE \<longrightarrow>
      (\<exists>c'. set_cache 3600 5000 (example_key 2) (example_result ''vv'') (example_cache 1 2) = Inr c' \<and>
            c' = AList.update (example_key 2)
                   \<lparr>data = example_result ''vv'', expires_at = 5000 + timedelta_seconds 3600\<rparr>
                   (example_cache 1 2) \<and>
            fst ` set c' = insert (example_key 2) (fst ` set (example_cache 1 2)) \<and>
            (\<forall>k. k \<noteq> example_key 2 \<longrightarrow> map_of c' k = map_of (example_cache 1 2) k))"
      using set_cache_frame [OF wf_small, of 3600 5000 "example_key 2" "example_result ''vv''"]
      by (rule conjunct1)
    then have "\<exists>c'. set_cache 3600 5000 (example_key 2) (example_result ''vv'') (example_cache 1 2) = Inr c' \<and>
            c' = AList.update (example_key 2)
                   \<lparr>data = example_result ''vv'', expires_at = 5000 + timedelta_seconds 3600\<rparr>
                   (example_cache 1 2) \<and>
            fst ` set c' = insert (example_key 2) (fst ` set (example_cache 1 2)) \<and>
            (\<forall>k. k \<noteq> example_key 2 \<longrightarrow> map_of c' k = map_of (example_cache 1 2) k)"
      using small by (rule mp)
    then show ?thesis
    proof (elim exE conjE)
      fix c'
      assume v1: "set_cache 3600 5000 (example_key 2) (example_result ''vv'') (example_cache 1 2) = Inr c'"
        and v2: "c' = AList.update (example_key 2)
                   \<lparr>data = example_result ''vv'', expires_at = 5000 + timedelta_seconds 3600\<rparr>
                   (example_cache 1 2)"
        and v3: "fst ` set c' = insert (example_key 2) (fst ` set (example_cache 1 2))"
        and v4: "\<forall>k. k \<noteq> example_key 2 \<longrightarrow> map_of c' k = map_of (example_cache 1 2) k"
      from v4 ne(1) have kept: "map_of c' (example_key 1) = map_of (example_cache 1 2) (example_key 1)"
        by simp
      show ?thesis
        by (rule exI [of _ c']) (intro conjI v1 v2 v3 kept)
    qed
  qed
  have above: "\<exists>victim entry c'. oldest_key (example_cache 1 256) = Inr victim \<and>
         victim \<in> fst ` set (example_cache 1 256) \<and>
         map_of (example_cache 1 256) victim = Some entry \<and>
         (\<forall>q \<in> set (example_cache 1 256). expires_at entry \<le> expires_at (snd q)) \<and>
         set_cache 3600 5000 (example_key 2) (example_result ''vv'') (example_cache 1 256) = Inr c' \<and>
         c' = AList.update (example_key 2)
                \<lparr>data = example_result ''vv'', expires_at = 5000 + timedelta_seconds 3600\<rparr>
                (AList.delete victim (example_cache 1 256)) \<and>
         fst ` set c' = insert (example_key 2) (fst ` set (example_cache 1 256) - {victim}) \<and>
         map_of c' (example_key 3) = map_of (example_cache 1 256) (example_key 3)"
  proof -
    have "length (example_cache 1 256) \<ge> CACHE_MAX_SIZE \<longrightarrow>
      (\<exists>victim entry c'. oldest_key (example_cache 1 256) = Inr victim \<and>
            victim \<in> fst ` set (example_cache 1 256) \<and>
            map_of (example_cache 1 256) victim = Some entry \<and>
            (\<forall>q \<in> set (example_cache 1 256). expires_at entry \<le> expires_at (snd q)) \<and>
            set_cache 3600 5000 (example_key 2) (example_result ''vv'') (example_cache 1 256) = Inr c' \<and>
            c' = AList.update (example_key 2)
                   \<lparr>data = example_result ''vv'', expires_at = 5000 + timedelta_seconds 3600\<rparr>
                   (AList.delete victim (example_cache 1 256)) \<and>
            fst ` set c' = insert (example_key 2) (fst ` set (example_cache 1 256) - {victim}) \<and>
            (victim \<noteq> example_key 2 \<longrightarrow> map_of c' victim = None) \<and>
            (\<forall>k. k \<noteq> example_key 2 \<longrightarrow> k \<noteq> victim \<longrightarrow>
                 map_of c' k = map_of (example_cache 1 256) k))"
      using set_cache_frame [OF wf_full, of 3600 5000 "example_key 2" "example_result ''vv''"]
      by (rule conjunct2)
    then have "\<exists>victim entry c'. oldest_key (example_cache 1 256) = Inr victim \<and>
            victim \<in> fst ` set (example_cache 1 256) \<and>
            map_of (example_cache 1 256) victim = Some entry \<and>
            (\<forall>q \<in> set (example_cache 1 256). expires_at entry \<le> expires_at (snd q)) \<and>
            set_cache 3600 5000 (example_key 2) (example_result ''vv'') (example_cache 1 256) = Inr c' \<and>
            c' = AList.update (example_key 2)
                   \<lparr>data = example_result ''vv'', expires_at = 5000 + timedelta_seconds 3600\<rparr>
                   (AList.delete victim (example_cache 1 256)) \<and>
            fst ` set c' = insert (example_key 2) (fst ` set (example_cache 1 256) - {victim}) \<and>
            (victim \<noteq> example_key 2 \<longrightarrow> map_of c' victim = None) \<and>
            (\<forall>k. k \<noteq> example_key 2 \<longrightarrow> k \<noteq> victim \<longrightarrow>
                 map_of c' k = map_of (example_cache 1 256) k)"
      using full by (rule mp)
    then show ?thesis
    proof (elim exE conjE)
      fix victim entry c'
      assume v1: "oldest_key (example_cache 1 256) = Inr victim"
        and v2: "victim \<in> fst ` set (example_cache 1 256)"
        and v3: "map_of (example_cache 1 256) victim = Some entry"
        and v4: "\<forall>q \<in> set (example_cache 1 256). expires_at entry \<le> expires_at (snd q)"
        and v5: "set_cache 3600 5000 (example_key 2) (example_result ''vv'') (example_cache 1 256) = Inr c'"
        and v6: "c' = AList.update (example_key 2)
                   \<lparr>data = example_result ''vv'', expires_at = 5000 + timedelta_seconds 3600\<rparr>
                   (AList.delete victim (example_cache 1 256))"
        and v7: "fst ` set c' = insert (example_key 2) (fst ` set (example_cache 1 256) - {victim})"
        and v9: "\<forall>k. k \<noteq> example_key 2 \<longrightarrow> k \<noteq> victim \<longrightarrow>
                 map_of c' k = map_of (example_cache 1 256) k"
      from v1 oldest have "victim = example_key 1" by simp
      with v9 ne have kept: "map_of c' (example_key 3) = map_of (example_cache 1 256) (example_key 3)"
        by simp
      show ?thesis
        by (rule exI [of _ victim], rule exI [of _ entry], rule exI [of _ c'])
           (intro conjI v1 v2 v3 v4 v5 v6 v7 kept)
    qed
  qed
  show ?thesis
    by (intro conjI wf_small small below wf_full full above)
qed

subsection \<open>Expiry\<close>

text \<open>
  C5 as stated fails at the boundary: line 66 drops an entry only when the clock is
  strictly after \<open>expires_at\<close>. An entry stored at time 0 with a TTL of 3600 seconds is
  still returned at time 0 + 3600 seconds.
\<close>

theorem ttl_boundary_counterexample:
  "set_cache 3600 0 ''v:en'' (example_result ''v'') []
     = Inr [(''v:en'', \<lparr>data = example_result ''v'', expires_at = 0 + timedelta_seconds 3600\<rparr>)] \<and>
   get_from_cache (0 + timedelta_seconds 3600) ''v:en''
       [(''v:en'', \<lparr>data = example_result ''v'', expires_at = 0 + timedelta_seconds 3600\<rparr>)]
     = (Some (example_result ''v''),
        [(''v:en'', \<lparr>data = example_result ''v'', expires_at = 0 + timedelta_seconds 3600\<rparr>)])"
  by (simp add: set_cache_def get_from_cache_def CACHE_MAX_SIZE_def)

text \<open>
  C5, amended. A key stored by \<open>set_cache\<close> at time \<open>T\<close> under the TTL \<open>ttl\<close> gets the
  expiry \<open>T + ttl\<close>. In any later cache \<open>c2\<close> that still holds that entry for the
  key, \<open>get_from_cache\<close> returns the stored value and leaves the cache unchanged at
  every query time up to and including \<open>T + ttl\<close>, and at every query time strictly
  after \<open>T + ttl\<close> it reports absent and deletes the entry. In general
  \<open>get_from_cache\<close> returns a value exactly when the key has an entry whose
  \<open>expires_at\<close> is not before the current time.
\<close>

theorem ttl_correctness:
  assumes put: "set_cache ttl T key d c = Inr c1"
    and kept: "map_of c2 key = map_of c1 key"
  shows "map_of c1 key = Some \<lparr>data = d, expires_at = T + timedelta_seconds ttl\<rparr> \<and>
         (t \<le> T + timedelta_seconds ttl \<longrightarrow> get_from_cache t key c2 = (Some d, c2)) \<and>
         (t > T + timedelta_seconds ttl \<longrightarrow>
            get_from_cache t key c2 = (None, AList.delete key c2) \<and>
            map_of (AList.delete key c2) key = None) \<and>
         (\<forall>c0 v. (fst (get_from_cache t key c0) = Some v) =
                 (\<exists>e. map_of c0 key = Some e \<and> data e = v \<and> t \<le> expires_at e))"
proof -
  let ?e = "\<lparr>data = d, expires_at = T + timedelta_seconds ttl\<rparr>"
  from put have stored: "map_of c1 key = Some ?e" by (rule set_cache_stores)
  with kept have c2: "map_of c2 key = Some ?e" by simp
  have fresh: "t \<le> T + timedelta_seconds ttl \<longrightarrow> get_from_cache t key c2 = (Some d, c2)"
    using get_from_cache_fresh [OF c2, of t] by simp
  have stale: "t > T + timedelta_seconds ttl \<longrightarrow>
            get_from_cache t key c2 = (None, AList.delete key c2) \<and>
            map_of (AList.delete key c2) key = None"
    using get_from_cache_stale [OF c2, of t] by (simp add: AList.delete_conv')
  have general: "\<forall>c0 v. (fst (get_from_cache t key c0) = Some v) =
                 (\<exists>e. map_of c0 key = Some e \<and> data e = v \<and> t \<le> expires_at e)"
    by (auto simp: get_from_cache_def split: option.splits)
  from stored fresh stale general show ?thesis by blast
qed

theorem ttl_correctness_witness:
  "set_cache 3600 0 ''v:en'' (example_result ''v'') []
     = Inr [(''v:en'', \<lparr>data = example_result ''v'', expires_at = 3600000000\<rparr>)] \<and>
   get_from_cache 3600000000 ''v:en''
       [(''v:en'', \<lparr>data = example_result ''v'', expires_at = 3600000000\<rparr>)]
     = (Some (example_result ''v''),
        [(''v:en'', \<lparr>data = example_result ''v'', expires_at = 3600000000\<rparr>)]) \<and>
   get_from_cache 3600000001 ''v:en''
       [(''v:en'', \<lparr>data = example_result ''v'', expires_at = 3600000000\<rparr>)]
     = (None, AList.delete ''v:en''
                [(''v:en'', \<lparr>data = example_result ''v'', expires_at = 3600000000\<rparr>)])"
proof -
  let ?c1 = "[(''v:en'', \<lparr>data = example_result ''v'', expires_at = 3600000000\<rparr>)]"
  have put: "set_cache 3600 0 ''v:en'' (example_result ''v'') [] = Inr ?c1"
    by (simp add: set_cache_def CACHE_MAX_SIZE_def timedelta_seconds_def)
  have kept: "map_of ?c1 ''v:en'' = map_of ?c1 ''v:en''" by simp
  from put ttl_correctness [OF put kept, of 3600000000] ttl_correctness [OF put kept, of 3600000001]
  show ?thesis by (simp add: timedelta_seconds_def)
qed

subsection \<open>Capacity\<close>

text \<open>
  C2. Cache capacity invariant: every sequence of \<open>set_cache\<close> calls that starts from
  the empty cache runs without raising, and after each call of the sequence (after the
  first \<open>n\<close> calls, for every \<open>n\<close>) the cache has distinct keys and at most
  \<open>CACHE_MAX_SIZE = 256\<close> of them.
\<close>

theorem cache_capacity_invariant:
  "\<exists>c'. set_cache_all ttl (take n calls) [] = Inr c' \<and> wf_cache c' \<and>
        card (fst ` set c') \<le> CACHE_MAX_SIZE \<and> length c' \<le> 256"
proof -
  have "wf_cache []" by (simp add: wf_cache_def)
  moreover have "length ([] :: cache) \<le> CACHE_MAX_SIZE" by simp
  ultimately obtain c' where c': "set_cache_all ttl (take n calls) [] = Inr c'" "wf_cache c'"
      "length c' \<le> CACHE_MAX_SIZE"
    using set_cache_all_invariant by blast
  have "card (fst ` set c') \<le> length c'"
    by (metis card_image_le card_length le_trans List.finite_set)
  with c' show ?thesis by (auto simp: CACHE_MAX_SIZE_def)
qed

section \<open>Properties of the request handler\<close>

subsection \<open>The language loop\<close>

lemma select_transcript_first_success:
  "select_transcript p cat languages (None, None) =
     (case first_success p cat languages of
        None \<Rightarrow> (None, None)
      | Some (t, l) \<Rightarrow> (Some t, Some l))"
  by (induction languages)
     (auto simp: try_candidate_def split: sum.splits list.splits option.splits)

lemma first_success_Some_iff:
  "first_success p cat languages = Some (t, l) \<longleftrightarrow>
     (\<exists>before after. languages = before @ l # after \<and>
        (\<forall>l' \<in> set before. try_candidate p cat l' = None) \<and> try_candidate p cat l = Some t)"
proof (induction languages)
  case Nil
  show ?case by simp
next
  case (Cons a ls)
  show ?case
  proof (cases "try_candidate p cat a")
    case (Some u)
    show ?thesis
    proof
      assume "first_success p cat (a # ls) = Some (t, l)"
      with Some have "u = t" "a = l" by simp_all
      with Some have "a # ls = [] @ l # ls \<and> (\<forall>l' \<in> set []. try_candidate p cat l' = None) \<and>
                        try_candidate p cat l = Some t"
        by simp
      then show "\<exists>before after. a # ls = before @ l # after \<and>
                   (\<forall>l' \<in> set before. try_candidate p cat l' = None) \<and> try_candidate p cat l = Some t"
        by blast
    next
      assume "\<exists>before after. a # ls = before @ l # after \<and>
                (\<forall>l' \<in> set before. try_candidate p cat l' = None) \<and> try_candidate p cat l = Some t"
      then obtain before after where split: "a # ls = before @ l # after"
        and fails: "\<forall>l' \<in> set before. try_candidate p cat l' = None"
        and wins: "try_candidate p cat l = Some t"
        by blast
      have "before = []"
      proof (cases before)
        case Nil
        then show ?thesis .
      next
        case (Cons b bs)
        with split have "b = a" by simp
        with Cons fails have "try_candidate p cat a = None" by simp
        with Some show ?thesis by simp
      qed
      with split have "a = l" by simp
      with Some wins show "first_success p cat (a # ls) = Some (t, l)" by simp
    qed
  next
    case None
    have "(\<exists>before after. a # ls = before @ l # after \<and>
             (\<forall>l' \<in> set before. try_candidate p cat l' = None) \<and> try_candidate p cat l = Some t) \<longleftrightarrow>
          (\<exists>before after. ls = before @ l # after \<and>
             (\<forall>l' \<in> set before. try_candidate p cat l' = None) \<and> try_candidate p cat l = Some t)"
    proof
      assume "\<exists>before after. a # ls = before @ l # after \<and>
                (\<forall>l' \<in> set before. try_candidate p cat l' = None) \<and> try_candidate p cat l = Some t"
      then obtain before after where split: "a # ls = before @ l # after"
        and fails: "\<forall>l' \<in> set before. try_candidate p cat l' = None"
        and wins: "try_candidate p cat l = Some t"
        by blast
      show "\<exists>before after. ls = before @ l # after \<and>
              (\<forall>l' \<in> set before. try_candidate p cat l' = None) \<and> try_candidate p cat l = Some t"
      proof (cases before)
        case Nil
        with split have "a = l" by simp
        with None wins show ?thesis by simp
      next
        case (Cons b bs)
        with split have "ls = bs @ l # after" by simp
        moreover from Cons fails have "\<forall>l' \<in> set bs. try_candidate p cat l' = None" by simp
        ultimately show ?thesis using wins by blast
      qed
    next
      assume "\<exists>before after. ls = before @ l # after \<and>
                (\<forall>l' \<in> set before. try_candidate p cat l' = None) \<and> try_candidate p cat l = Some t"
      then obtain before after where split: "ls = before @ l # after"
        and fails: "\<forall>l' \<in> set before. try_candidate p cat l' = None"
        and wins: "try_candidate p cat l = Some t"
        by blast
      from split have "a # ls = (a # before) @ l # after" by simp
      moreover from None fails have "\<forall>l' \<in> set (a # before). try_candidate p cat l' = None" by simp
      ultimately show "\<exists>before after. a # ls = before @ l # after \<and>
              (\<forall>l' \<in> set before. try_candidate p cat l' = None) \<and> try_candidate p cat l = Some t"
        using wins by blast
    qed
    with None Cons.IH show ?thesis by simp
  qed
qed

lemma first_success_None_iff:
  "first_success p cat languages = None \<longleftrightarrow> (\<forall>l \<in> set languages. try_candidate p cat l = None)"
  by (induction languages) (auto split: option.splits)

lemma first_success_mem: "first_success p cat languages = Some (t, l) \<Longrightarrow> l \<in> set languages"
  by (induction languages) (auto split: option.splits)

lemma or_unknown_candidate: "l \<noteq> [] \<Longrightarrow> or_unknown (Some l) = l"
  by (simp add: or_unknown_def)

lemma languages_of_nonempty_strings: "[] \<notin> set (languages_of lang)"
  by (auto simp: languages_of_def DEFAULT_LANGUAGES_def split: option.splits)

lemma build_result_language:
  "build_result vid txt lu rid fmt items = Inr r \<Longrightarrow> res_language_used r = or_unknown lu"
  by (auto simp: build_result_def Let_def split: if_splits sum.splits)

lemma render_cases:
  "render fmt r rid = JsonResponse r \<or> render fmt r rid = TextResponse (res_video_id r) (res_text r) rid"
  by (simp add: render_def)

lemma fetch_transcript_success:
  assumes run: "fetch_transcript cfg p now rid vid languages fmt key c = (Inr resp, c')"
  shows "\<exists>cat t l items texts r.
           list_transcripts p vid = Inr cat \<and>
           first_success p cat languages = Some (t, l) \<and>
           fetch p t = Inr items \<and> item_texts items = Inr texts \<and>
           build_result vid (join '' '' texts) (Some l) rid fmt items = Inr r \<and>
           set_cache (cache_ttl_seconds cfg) now key r c = Inr c' \<and>
           resp = render fmt r rid"
proof -
  from run obtain cat where cat: "list_transcripts p vid = Inr cat"
    by (auto simp: fetch_transcript_def split: sum.splits)
  show ?thesis
  proof (cases "first_success p cat languages")
    case None
    then have "select_transcript p cat languages (None, None) = (None, None)"
      by (simp add: select_transcript_first_success)
    with run cat show ?thesis by (simp add: fetch_transcript_def)
  next
    case (Some tlang)
    obtain t l where tlang: "tlang = (t, l)" by (cases tlang) auto
    with Some have sel: "select_transcript p cat languages (None, None) = (Some t, Some l)"
      by (simp add: select_transcript_first_success)
    from run cat sel obtain items where items: "fetch p t = Inr items"
      by (auto simp: fetch_transcript_def split: sum.splits)
    from run cat sel items obtain texts where texts: "item_texts items = Inr texts"
      by (auto simp: fetch_transcript_def split: sum.splits)
    from run cat sel items texts obtain r
      where r: "build_result vid (join '' '' texts) (Some l) rid fmt items = Inr r"
      by (auto simp: fetch_transcript_def split: sum.splits)
    from run cat sel items texts r
    have "set_cache (cache_ttl_seconds cfg) now key r c = Inr c' \<and> resp = render fmt r rid"
      by (auto simp: fetch_transcript_def split: sum.splits)
    with cat Some tlang items texts r show ?thesis by blast
  qed
qed

lemma fetch_transcript_error_frame:
  "fetch_transcript cfg p now rid vid languages fmt key c = (Inl e, c') \<Longrightarrow> c' = c"
  by (auto simp: fetch_transcript_def split: sum.splits option.splits prod.splits)

subsection \<open>Resolution order\<close>

lemma fetch_transcript_winner:
  assumes cat: "list_transcripts p vid = Inr cat"
    and first: "first_success p cat languages = Some (t, l)"
    and ne: "l \<noteq> []"
    and items: "fetch p t = Inr items"
    and texts: "item_texts items = Inr texts"
    and segs: "fmt = ''json'' \<longrightarrow> build_segments items = Inr segs"
  shows "\<exists>c'. fetch_transcript cfg p now rid vid languages fmt key c
                = (Inr (render fmt
                     \<lparr>res_video_id = vid, res_text = join '' '' texts, res_language_used = l,
                      res_request_id = rid,
                      res_segments = (if fmt = ''json'' then Some segs else None)\<rparr> rid), c') \<and>
              set_cache (cache_ttl_seconds cfg) now key
                \<lparr>res_video_id = vid, res_text = join '' '' texts, res_language_used = l,
                 res_request_id = rid,
                 res_segments = (if fmt = ''json'' then Some segs else None)\<rparr> c = Inr c' \<and>
              map_of c' key
                = Some \<lparr>data = \<lparr>res_video_id = vid, res_text = join '' '' texts,
                                 res_language_used = l, res_request_id = rid,
                                 res_segments = (if fmt = ''json'' then Some segs else None)\<rparr>,
                        expires_at = now + timedelta_seconds (cache_ttl_seconds cfg)\<rparr>"
proof -
  let ?r = "\<lparr>res_video_id = vid, res_text = join '' '' texts, res_language_used = l,
             res_request_id = rid,
             res_segments = (if fmt = ''json'' then Some segs else None)\<rparr>"
  from first have sel: "select_transcript p cat languages (None, None) = (Some t, Some l)"
    by (simp add: select_transcript_first_success)
  from ne segs have built: "build_result vid (join '' '' texts) (Some l) rid fmt items = Inr ?r"
    by (simp add: build_result_def or_unknown_def)
  obtain c' where put: "set_cache (cache_ttl_seconds cfg) now key ?r c = Inr c'"
    using set_cache_total by blast
  from cat sel items texts built put
  have run: "fetch_transcript cfg p now rid vid languages fmt key c = (Inr (render fmt ?r rid), c')"
    by (simp add: fetch_transcript_def)
  from put have stored: "map_of c' key =
      Some \<lparr>data = ?r, expires_at = now + timedelta_seconds (cache_ttl_seconds cfg)\<rparr>"
    by (rule set_cache_stores)
  show ?thesis
    by (rule exI [of _ c']) (intro conjI run put stored)
qed

lemma first_success_translated:
  assumes miss: "find_transcript p cat [xx] = Inl NoTranscriptFound \<or>
                 find_transcript p cat [xx] = Inl TranscriptsDisabled"
    and tracks: "enumerate_tracks p cat = Inr (first # others)"
    and tr: "translate p first xx = Inr t'"
  shows "first_success p cat (xx # rest) = Some (t', xx)"
  using miss
proof
  assume "find_transcript p cat [xx] = Inl NoTranscriptFound"
  with tracks tr show ?thesis by (simp add: try_candidate_def)
next
  assume "find_transcript p cat [xx] = Inl TranscriptsDisabled"
  with tracks tr show ?thesis by (simp add: try_candidate_def)
qed

text \<open>
  C6. Resolution order: the loop of lines 187-204 returns what the first candidate
  language of the list yields for which a try succeeds, where a try is an exact match
  and, only when that raises not-found or disabled, a translation of the first track
  of the catalogue (\<open>first_success\<close> over \<open>try_candidate\<close>); both loop variables stay
  \<open>None\<close> when no candidate succeeds. The body of the \<open>try\<close> builds its result from
  that winner: when the catalogue lookup succeeds, the first success is the track \<open>t\<close>
  for the language \<open>l\<close>, the fetch of \<open>t\<close> returns entries that all have a text (and,
  for \<open>format=json\<close>, give segments), then the body returns, and the result it returns
  and stores in the cache has the text of the entries of \<open>t\<close> and
  \<open>language_used = l\<close>. In particular, for the languages \<open>[xx, en]\<close> where the exact
  match for \<open>xx\<close> raises not-found or disabled, the catalogue has a first track and
  its translation into \<open>xx\<close> succeeds, the loop selects the translated track with the
  language \<open>xx\<close>; the body then returns a result with \<open>language_used = xx\<close> built
  from the translated track, and every result of the body has \<open>language_used = xx\<close>.
\<close>

theorem resolution_order:
  "select_transcript p cat languages (None, None) =
     (case first_success p cat languages of
        None \<Rightarrow> (None, None)
      | Some (t, l) \<Rightarrow> (Some t, Some l)) \<and>
   (list_transcripts p vid = Inr cat \<longrightarrow>
    first_success p cat languages = Some (t, l) \<longrightarrow>
    l \<noteq> [] \<longrightarrow>
    fetch p t = Inr items \<longrightarrow>
    item_texts items = Inr texts \<longrightarrow>
    (fmt = ''json'' \<longrightarrow> build_segments items = Inr segs) \<longrightarrow>
      (\<exists>c'. fetch_transcript cfg p now rid vid languages fmt key c
                = (Inr (render fmt
                     \<lparr>res_video_id = vid, res_text = join '' '' texts, res_language_used = l,
                      res_request_id = rid,
                      res_segments = (if fmt = ''json'' then Some segs else None)\<rparr> rid), c') \<and>
            set_cache (cache_ttl_seconds cfg) now key
                \<lparr>res_video_id = vid, res_text = join '' '' texts, res_language_used = l,
                 res_request_id = rid,
                 res_segments = (if fmt = ''json'' then Some segs else None)\<rparr> c = Inr c' \<and>
            map_of c' key
                = Some \<lparr>data = \<lparr>res_video_id = vid, res_text = join '' '' texts,
                                 res_language_used = l, res_request_id = rid,
                                 res_segments = (if fmt = ''json'' then Some segs else None)\<rparr>,
                        expires_at = now + timedelta_seconds (cache_ttl_seconds cfg)\<rparr>)) \<and>
   (find_transcript p cat [xx] = Inl NoTranscriptFound \<or>
    find_transcript p cat [xx] = Inl TranscriptsDisabled \<longrightarrow>
    enumerate_tracks p cat = Inr (first # others) \<longrightarrow>
    translate p first xx = Inr t' \<longrightarrow>
      select_transcript p cat [xx, en] (None, None) = (Some t', Some xx) \<and>
      first_success p cat [xx, en] = Some (t', xx) \<and>
      (xx \<noteq> [] \<longrightarrow> list_transcripts p vid = Inr cat \<longrightarrow>
       fetch p t' = Inr items \<longrightarrow>
       item_texts items = Inr texts \<longrightarrow>
       (fmt = ''json'' \<longrightarrow> build_segments items = Inr segs) \<longrightarrow>
         (\<exists>c'. fetch_transcript cfg p now rid vid [xx, en] fmt key c
                   = (Inr (render fmt
                        \<lparr>res_video_id = vid, res_text = join '' '' texts, res_language_used = xx,
                         res_request_id = rid,
                         res_segments = (if fmt = ''json'' then Some segs else None)\<rparr> rid), c') \<and>
               map_of c' key
                   = Some \<lparr>data = \<lparr>res_video_id = vid, res_text = join '' '' texts,
                                    res_language_used = xx, res_request_id = rid,
                                    res_segments = (if fmt = ''json'' then Some segs else None)\<rparr>,
                           expires_at = now + timedelta_seconds (cache_ttl_seconds cfg)\<rparr>)) \<and>
      (xx \<noteq> [] \<longrightarrow> list_transcripts p vid = Inr cat \<longrightarrow>
       fetch_transcript cfg p now rid vid [xx, en] fmt key c = (Inr resp, c2) \<longrightarrow>
         (\<exists>r. map_of c2 key = Some \<lparr>data = r, expires_at = now + timedelta_seconds (cache_ttl_seconds cfg)\<rparr> \<and>
              res_language_used r = xx \<and> resp = render fmt r rid)))"
proof (intro conjI impI)
  show "select_transcript p cat languages (None, None) =
     (case first_success p cat languages of
        None \<Rightarrow> (None, None)
      | Some (t, l) \<Rightarrow> (Some t, Some l))"
    by (rule select_transcript_first_success)
next
  assume "list_transcripts p vid = Inr cat" "first_success p cat languages = Some (t, l)"
    "l \<noteq> []" "fetch p t = Inr items" "item_texts items = Inr texts"
    "fmt = ''json'' \<longrightarrow> build_segments items = Inr segs"
  then show "\<exists>c'. fetch_transcript cfg p now rid vid languages fmt key c
                = (Inr (render fmt
                     \<lparr>res_video_id = vid, res_text = join '' '' texts, res_language_used = l,
                      res_request_id = rid,
                      res_segments = (if fmt = ''json'' then Some segs else None)\<rparr> rid), c') \<and>
            set_cache (cache_ttl_seconds cfg) now key
                \<lparr>res_video_id = vid, res_text = join '' '' texts, res_language_used = l,
                 res_request_id = rid,
                 res_segments = (if fmt = ''json'' then Some segs else None)\<rparr> c = Inr c' \<and>
            map_of c' key
                = Some \<lparr>data = \<lparr>res_video_id = vid, res_text = join '' '' texts,
                                 res_language_used = l, res_request_id = rid,
                                 res_segments = (if fmt = ''json'' then Some segs else None)\<rparr>,
                        expires_at = now + timedelta_seconds (cache_ttl_seconds cfg)\<rparr>"
    by (rule fetch_transcript_winner)
next
  assume miss: "find_transcript p cat [xx] = Inl NoTranscriptFound \<or>
                find_transcript p cat [xx] = Inl TranscriptsDisabled"
    and tracks: "enumerate_tracks p cat = Inr (first # others)"
    and tr: "translate p first xx = Inr t'"
  from miss tracks tr have "first_success p cat [xx, en] = Some (t', xx)"
    by (rule first_success_translated)
  then show "select_transcript p cat [xx, en] (None, None) = (Some t', Some xx)"
    by (simp only: select_transcript_first_success option.case prod.case)
next
  assume miss: "find_transcript p cat [xx] = Inl NoTranscriptFound \<or>
                find_transcript p cat [xx] = Inl TranscriptsDisabled"
    and tracks: "enumerate_tracks p cat = Inr (first # others)"
    and tr: "translate p first xx = Inr t'"
  then show "first_success p cat [xx, en] = Some (t', xx)"
    by (rule first_success_translated)
next
  assume miss: "find_transcript p cat [xx] = Inl NoTranscriptFound \<or>
                find_transcript p cat [xx] = Inl TranscriptsDisabled"
    and tracks: "enumerate_tracks p cat = Inr (first # others)"
    and tr: "translate p first xx = Inr t'"
    and ne: "xx \<noteq> []"
    and cat: "list_transcripts p vid = Inr cat"
    and items: "fetch p t' = Inr items"
    and texts: "item_texts items = Inr texts"
    and segs: "fmt = ''json'' \<longrightarrow> build_segments items = Inr segs"
  from miss tracks tr have first: "first_success p cat [xx, en] = Some (t', xx)"
    by (rule first_success_translated)
  from fetch_transcript_winner [OF cat first ne items texts segs, of cfg now rid key c]
  obtain c' where run: "fetch_transcript cfg p now rid vid [xx, en] fmt key c
                = (Inr (render fmt
                     \<lparr>res_video_id = vid, res_text = join '' '' texts, res_language_used = xx,
                      res_request_id = rid,
                      res_segments = (if fmt = ''json'' then Some segs else None)\<rparr> rid), c')"
    and stored: "map_of c' key
                = Some \<lparr>data = \<lparr>res_video_id = vid, res_text = join '' '' texts,
                                 res_language_used = xx, res_request_id = rid,
                                 res_segments = (if fmt = ''json'' then Some segs else None)\<rparr>,
                        expires_at = now + timedelta_seconds (cache_ttl_seconds cfg)\<rparr>"
    by (elim exE conjE)
  show "\<exists>c'. fetch_transcript cfg p now rid vid [xx, en] fmt key c
                   = (Inr (render fmt
                        \<lparr>res_video_id = vid, res_text = join '' '' texts, res_language_used = xx,
                         res_request_id = rid,
                         res_segments = (if fmt = ''json'' then Some segs else None)\<rparr> rid), c') \<and>
               map_of c' key
                   = Some \<lparr>data = \<lparr>res_video_id = vid, res_text = join '' '' texts,
                                    res_language_used = xx, res_request_id = rid,
                                    res_segments = (if fmt = ''json'' then Some segs else None)\<rparr>,
                           expires_at = now + timedelta_seconds (cache_ttl_seconds cfg)\<rparr>"
    by (rule exI [of _ c']) (intro conjI run stored)
next
  assume miss: "find_transcript p cat [xx] = Inl NoTranscriptFound \<or>
                find_transcript p cat [xx] = Inl TranscriptsDisabled"
    and tracks: "enumerate_tracks p cat = Inr (first # others)"
    and tr: "translate p first xx = Inr t'"
    and ne: "xx \<noteq> []"
    and cat: "list_transcripts p vid = Inr cat"
    and run: "fetch_transcript cfg p now rid vid [xx, en] fmt key c = (Inr resp, c2)"
  from miss tracks tr have first: "first_success p cat [xx, en] = Some (t', xx)"
    by (rule first_success_translated)
  from fetch_transcript_success [OF run] cat first obtain items texts r
    where r: "build_result vid (join '' '' texts) (Some xx) rid fmt items = Inr r"
      and put: "set_cache (cache_ttl_seconds cfg) now key r c = Inr c2"
      and resp: "resp = render fmt r rid"
    by auto
  from r ne have used: "res_language_used r = xx"
    by (simp add: build_result_language or_unknown_candidate)
  from put have stored: "map_of c2 key =
      Some \<lparr>data = r, expires_at = now + timedelta_seconds (cache_ttl_seconds cfg)\<rparr>"
    by (rule set_cache_stores)
  show "\<exists>r. map_of c2 key =
        Some \<lparr>data = r, expires_at = now + timedelta_seconds (cache_ttl_seconds cfg)\<rparr> \<and>
      res_language_used r = xx \<and> resp = render fmt r rid"
    by (rule exI [of _ r]) (intro conjI stored used resp)
qed

theorem resolution_order_witness:
  "list_transcripts example_provider ''v'' = Inr [Track ''de'', Track ''en''] \<and>
   find_transcript example_provider [Track ''de'', Track ''en''] [''xx''] = Inl NoTranscriptFound \<and>
   find_transcript example_provider [Track ''de'', Track ''en''] [''en''] = Inr (Track ''en'') \<and>
   enumerate_tracks example_provider [Track ''de'', Track ''en''] = Inr [Track ''de'', Track ''en''] \<and>
   translate example_provider (Track ''de'') ''xx'' = Inr (Translated (Track ''de'') ''xx'') \<and>
   first_success example_provider [Track ''de'', Track ''en''] [''yy'', ''en''] = Some (Track ''en'', ''en'') \<and>
   fetch example_provider (Track ''en'') = Inr example_items \<and>
   fetch example_provider (Translated (Track ''de'') ''xx'') = Inr example_items \<and>
   item_texts example_items = Inr [''A'', ''B'', ''C''] \<and>
   build_segments example_items = Inr
        [\<lparr>seg_text = ''A'', seg_start = PyFloat 0, seg_duration = PyFloat 1\<rparr>,
         \<lparr>seg_text = ''B'', seg_start = PyFloat 1, seg_duration = PyFloat 1\<rparr>,
         \<lparr>seg_text = ''C'', seg_start = PyFloat 2, seg_duration = PyInt 0\<rparr>] \<and>
   select_transcript example_provider [Track ''de'', Track ''en''] [''yy'', ''en''] (None, None)
     = (Some (Track ''en''), Some ''en'') \<and>
   (\<exists>c'. fetch_transcript example_config example_provider 20 ''req-1'' ''v'' [''yy'', ''en''] ''json'' ''v:yy,en'' []
           = (Inr (render ''json''
                \<lparr>res_video_id = ''v'', res_text = join '' '' [''A'', ''B'', ''C''],
        res_language_used = ''en'', res_request_id = ''req-1'',
        res_segments = (if ''json'' = ''json'' then Some
        [\<lparr>seg_text = ''A'', seg_start = PyFloat 0, seg_duration = PyFloat 1\<rparr>,
         \<lparr>seg_text = ''B'', seg_start = PyFloat 1, seg_duration = PyFloat 1\<rparr>,
         \<lparr>seg_text = ''C'', seg_start = PyFloat 2, seg_duration = PyInt 0\<rparr>] else None)\<rparr> ''req-1''), c') \<and>
         set_cache (cache_ttl_seconds example_config) 20 ''v:yy,en''
           \<lparr>res_video_id = ''v'', res_text = join '' '' [''A'', ''B'', ''C''],
        res_language_used = ''en'', res_request_id = ''req-1'',
        res_segments = (if ''json'' = ''json'' then Some
        [\<lparr>seg_text = ''A'', seg_start = PyFloat 0, seg_duration = PyFloat 1\<rparr>,
         \<lparr>seg_text = ''B'', seg_start = PyFloat 1, seg_duration = PyFloat 1\<rparr>,
         \<lparr>seg_text = ''C'', seg_start = PyFloat 2, seg_duration = PyInt 0\<rparr>] else None)\<rparr> [] = Inr c' \<and>
         map_of c' ''v:yy,en''
           = Some \<lparr>data = \<lparr>res_video_id = ''v'', res_text = join '' '' [''A'', ''B'', ''C''],
        res_language_used = ''en'', res_request_id = ''req-1'',
        res_segments = (if ''json'' = ''json'' then Some
        [\<lparr>seg_text = ''A'', seg_start = PyFloat 0, seg_duration = PyFloat 1\<rparr>,
         \<lparr>seg_text = ''B'', seg_start = PyFloat 1, seg_duration = PyFloat 1\<rparr>,
         \<lparr>seg_text = ''C'', seg_start = PyFloat 2, seg_duration = PyInt 0\<rparr>] else None)\<rparr>,
                   expires_at = 20 + timedelta_seconds (cache_ttl_seconds example_config)\<rparr>) \<and>
   select_transcript example_provider [Track ''de'', Track ''en''] [''xx'', ''en''] (None, None)
     = (Some (Translated (Track ''de'') ''xx''), Some ''xx'') \<and>
   (\<exists>c'. fetch_transcript example_config example_provider 20 ''req-1'' ''v'' [''xx'', ''en''] ''json'' ''v:xx,en'' []
           = (Inr (render ''json''
                \<lparr>res_video_id = ''v'', res_text = join '' '' [''A'', ''B'', ''C''],
        res_language_used = ''xx'', res_request_id = ''req-1'',
        res_segments = (if ''json'' = ''json'' then Some
        [\<lparr>seg_text = ''A'', seg_start = PyFloat 0, seg_duration = PyFloat 1\<rparr>,
         \<lparr>seg_text = ''B'', seg_start = PyFloat 1, seg_duration = PyFloat 1\<rparr>,
         \<lparr>seg_text = ''C'', seg_start = PyFloat 2, seg_duration = PyInt 0\<rparr>] else None)\<rparr> ''req-1''), c') \<and>
         map_of c' ''v:xx,en''
           = Some \<lparr>data = \<lparr>res_video_id = ''v'', res_text = join '' '' [''A'', ''B'', ''C''],
        res_language_used = ''xx'', res_request_id = ''req-1'',
        res_segments = (if ''json'' = ''json'' then Some
        [\<lparr>seg_text = ''A'', seg_start = PyFloat 0, seg_duration = PyFloat 1\<rparr>,
         \<lparr>seg_text = ''B'', seg_start = PyFloat 1, seg_duration = PyFloat 1\<rparr>,
         \<lparr>seg_text = ''C'', seg_start = PyFloat 2, seg_duration = PyInt 0\<rparr>] else None)\<rparr>,
                   expires_at = 20 + timedelta_seconds (cache_ttl_seconds example_config)\<rparr>)"
proof -
  have cat: "list_transcripts example_provider ''v'' = Inr [Track ''de'', Track ''en'']"
    by (simp add: example_provider_def)
  have miss: "find_transcript example_provider [Track ''de'', Track ''en''] [''xx''] = Inl NoTranscriptFound"
    by (simp add: example_provider_def)
  then have miss_or: "find_transcript example_provider [Track ''de'', Track ''en''] [''xx''] = Inl NoTranscriptFound \<or>
      find_transcript example_provider [Track ''de'', Track ''en''] [''xx''] = Inl TranscriptsDisabled"
    by (rule disjI1)
  have exact: "find_transcript example_provider [Track ''de'', Track ''en''] [''en''] = Inr (Track ''en'')"
    by (simp add: example_provider_def)
  have tracks: "enumerate_tracks example_provider [Track ''de'', Track ''en'']
                  = Inr (Track ''de'' # [Track ''en''])"
    by (simp add: example_provider_def)
  have tr: "translate example_provider (Track ''de'') ''xx'' = Inr (Translated (Track ''de'') ''xx'')"
    by (simp add: example_provider_def example_translate_def)
  have first: "first_success example_provider [Track ''de'', Track ''en''] [''yy'', ''en'']
                 = Some (Track ''en'', ''en'')"
    by (simp add: try_candidate_def example_provider_def example_translate_def)
  have items_en: "fetch example_provider (Track ''en'') = Inr example_items"
    by (simp add: example_provider_def)
  have items_xx: "fetch example_provider (Translated (Track ''de'') ''xx'') = Inr example_items"
    by (simp add: example_provider_def)
  have texts: "item_texts example_items = Inr [''A'', ''B'', ''C'']"
    by (simp add: example_items_def)
  have segs: "build_segments example_items = Inr
        [\<lparr>seg_text = ''A'', seg_start = PyFloat 0, seg_duration = PyFloat 1\<rparr>,
         \<lparr>seg_text = ''B'', seg_start = PyFloat 1, seg_duration = PyFloat 1\<rparr>,
         \<lparr>seg_text = ''C'', seg_start = PyFloat 2, seg_duration = PyInt 0\<rparr>]"
    by (simp add: example_items_def)
  have segs_json: "''json'' = ''json'' \<Longrightarrow> build_segments example_items = Inr
        [\<lparr>seg_text = ''A'', seg_start = PyFloat 0, seg_duration = PyFloat 1\<rparr>,
         \<lparr>seg_text = ''B'', seg_start = PyFloat 1, seg_duration = PyFloat 1\<rparr>,
         \<lparr>seg_text = ''C'', seg_start = PyFloat 2, seg_duration = PyInt 0\<rparr>]"
    by (rule segs)
  have ne_en: "''en'' \<noteq> []" by simp
  have ne_xx: "''xx'' \<noteq> []" by simp
  note general = resolution_order [where p = example_provider
      and cat = "[Track ''de'', Track ''en'']" and languages = "[''yy'', ''en'']"
      and t = "Track ''en''" and l = "''en''" and vid = "''v''" and items = example_items
      and texts = "[''A'', ''B'', ''C'']" and fmt = "''json''"
      and segs = "[\<lparr>seg_text = ''A'', seg_start = PyFloat 0, seg_duration = PyFloat 1\<rparr>,
         \<lparr>seg_text = ''B'', seg_start = PyFloat 1, seg_duration = PyFloat 1\<rparr>,
         \<lparr>seg_text = ''C'', seg_start = PyFloat 2, seg_duration = PyInt 0\<rparr>]"
      and cfg = example_config and now = 20 and rid = "''req-1''" and key = "''v:yy,en''"
      and c = "[]" and xx = "''xx''" and first = "Track ''de''" and others = "[Track ''en'']"
      and t' = "Translated (Track ''de'') ''xx''" and en = "''en''"]
  note special = resolution_order [where p = example_provider
      and cat = "[Track ''de'', Track ''en'']" and languages = "[''xx'', ''en'']"
      and t = "Translated (Track ''de'') ''xx''" and l = "''xx''" and vid = "''v''"
      and items = example_items
      and texts = "[''A'', ''B'', ''C'']" and fmt = "''json''"
      and segs = "[\<lparr>seg_text = ''A'', seg_start = PyFloat 0, seg_duration = PyFloat 1\<rparr>,
         \<lparr>seg_text = ''B'', seg_start = PyFloat 1, seg_duration = PyFloat 1\<rparr>,
         \<lparr>seg_text = ''C'', seg_start = PyFloat 2, seg_duration = PyInt 0\<rparr>]"
      and cfg = example_config and now = 20 and rid = "''req-1''" and key = "''v:xx,en''"
      and c = "[]" and xx = "''xx''" and first = "Track ''de''" and others = "[Track ''en'']"
      and t' = "Translated (Track ''de'') ''xx''" and en = "''en''"]
  have sel_en: "select_transcript example_provider [Track ''de'', Track ''en''] [''yy'', ''en''] (None, None)
     = (Some (Track ''en''), Some ''en'')"
    using general [THEN conjunct1] first by simp
  have res_en: "(\<exists>c'. fetch_transcript example_config example_provider 20 ''req-1'' ''v'' [''yy'', ''en''] ''json'' ''v:yy,en'' []
           = (Inr (render ''json''
                \<lparr>res_video_id = ''v'', res_text = join '' '' [''A'', ''B'', ''C''],
        res_language_used = ''en'', res_request_id = ''req-1'',
        res_segments = (if ''json'' = ''json'' then Some
        [\<lparr>seg_text = ''A'', seg_start = PyFloat 0, seg_duration = PyFloat 1\<rparr>,
         \<lparr>seg_text = ''B'', seg_start = PyFloat 1, seg_duration = PyFloat 1\<rparr>,
         \<lparr>seg_text = ''C'', seg_start = PyFloat 2, seg_duration = PyInt 0\<rparr>] else None)\<rparr> ''req-1''), c') \<and>
         set_cache (cache_ttl_seconds example_config) 20 ''v:yy,en''
           \<lparr>res_video_id = ''v'', res_text = join '' '' [''A'', ''B'', ''C''],
        res_language_used = ''en'', res_request_id = ''req-1'',
        res_segments = (if ''json'' = ''json'' then Some
        [\<lparr>seg_text = ''A'', seg_start = PyFloat 0, seg_duration = PyFloat 1\<rparr>,
         \<lparr>seg_text = ''B'', seg_start = PyFloat 1, seg_duration = PyFloat 1\<rparr>,
         \<lparr>seg_text = ''C'', seg_start = PyFloat 2, seg_duration = PyInt 0\<rparr>] else None)\<rparr> [] = Inr c' \<and>
         map_of c' ''v:yy,en''
           = Some \<lparr>data = \<lparr>res_video_id = ''v'', res_text = join '' '' [''A'', ''B'', ''C''],
        res_language_used = ''en'', res_request_id = ''req-1'',
        res_segments = (if ''json'' = ''json'' then Some
        [\<lparr>seg_text = ''A'', seg_start = PyFloat 0, seg_duration = PyFloat 1\<rparr>,
         \<lparr>seg_text = ''B'', seg_start = PyFloat 1, seg_duration = PyFloat 1\<rparr>,
         \<lparr>seg_text = ''C'', seg_start = PyFloat 2, seg_duration = PyInt 0\<rparr>] else None)\<rparr>,
                   expires_at = 20 + timedelta_seconds (cache_ttl_seconds example_config)\<rparr>)"
    by (rule general [THEN conjunct2, THEN conjunct1, rule_format,
          OF cat first ne_en items_en texts segs_json])
  note translated = special [THEN conjunct2, THEN conjunct2, rule_format, OF miss_or tracks tr]
  have sel_xx: "select_transcript example_provider [Track ''de'', Track ''en''] [''xx'', ''en''] (None, None)
     = (Some (Translated (Track ''de'') ''xx''), Some ''xx'')"
    by (rule translated [THEN conjunct1])
  have res_xx: "(\<exists>c'. fetch_transcript example_config example_provider 20 ''req-1'' ''v'' [''xx'', ''en''] ''json'' ''v:xx,en'' []
           = (Inr (render ''json''
                \<lparr>res_video_id = ''v'', res_text = join '' '' [''A'', ''B'', ''C''],
        res_language_used = ''xx'', res_request_id = ''req-1'',
        res_segments = (if ''json'' = ''json'' then Some
        [\<lparr>seg_text = ''A'', seg_start = PyFloat 0, seg_duration = PyFloat 1\<rparr>,
         \<lparr>seg_text = ''B'', seg_start = PyFloat 1, seg_duration = PyFloat 1\<rparr>,
         \<lparr>seg_text = ''C'', seg_start = PyFloat 2, seg_duration = PyInt 0\<rparr>] else None)\<rparr> ''req-1''), c') \<and>
         map_of c' ''v:xx,en''
           = Some \<lparr>data = \<lparr>res_video_id = ''v'', res_text = join '' '' [''A'', ''B'', ''C''],
        res_language_used = ''xx'', res_request_id = ''req-1'',
        res_segments = (if ''json'' = ''json'' then Some
        [\<lparr>seg_text = ''A'', seg_start = PyFloat 0, seg_duration = PyFloat 1\<rparr>,
         \<lparr>seg_text = ''B'', seg_start = PyFloat 1, seg_duration = PyFloat 1\<rparr>,
         \<lparr>seg_text = ''C'', seg_start = PyFloat 2, seg_duration = PyInt 0\<rparr>] else None)\<rparr>,
                   expires_at = 20 + timedelta_seconds (cache_ttl_seconds example_config)\<rparr>)"
    by (rule translated [THEN conjunct2, THEN conjunct2, THEN conjunct1, rule_format,
          OF ne_xx cat items_xx texts segs_json])
  from tracks have tracks': "enumerate_tracks example_provider [Track ''de'', Track ''en'']
      = Inr [Track ''de'', Track ''en'']"
    by simp
  show ?thesis
    by (intro conjI cat miss exact tracks' tr first items_en items_xx texts segs sel_en res_en
        sel_xx res_xx)
qed

subsection \<open>Exhaustion\<close>

lemma fetch_transcript_exhausted:
  assumes cat: "list_transcripts p vid = Inr cat"
    and none: "\<forall>l \<in> set languages. try_candidate p cat l = None"
  shows "fetch_transcript cfg p now rid vid languages fmt key c = (Inl NoTranscriptFound, c)"
proof -
  from none have "first_success p cat languages = None" by (simp add: first_success_None_iff)
  then have "select_transcript p cat languages (None, None) = (None, None)"
    by (simp add: select_transcript_first_success)
  with cat show ?thesis by (simp add: fetch_transcript_def)
qed

text \<open>
  C7. Exhaustion: when the catalogue lookup succeeds and no candidate language of the
  list yields an exact match or a translation, the body of the \<open>try\<close> leaves with
  \<open>NoTranscriptFound\<close> and the cache unchanged, and the handler maps that to status
  404 with the error \<open>no_transcript\<close>, not to 500. For a request that passes the
  key and format checks and misses the cache, \<open>get_transcript\<close> therefore answers
  404 \<open>no_transcript\<close>.
\<close>

theorem exhaustion_is_no_transcript:
  assumes cat: "list_transcripts p vid = Inr cat"
    and none: "\<forall>l \<in> set languages. try_candidate p cat l = None"
  shows "fetch_transcript cfg p now rid vid languages fmt key c = (Inl NoTranscriptFound, c) \<and>
         http_error_of NoTranscriptFound
           = \<lparr>status_code = 404, error_code = ''no_transcript'', diagnostic = None\<rparr> \<and>
         (languages = languages_of lang \<longrightarrow>
          key = get_cache_key vid (join '','' languages) \<longrightarrow>
          (api_key cfg = [] \<or> (x_api_key \<noteq> Some [] \<and> x_api_key = Some (api_key cfg))) \<longrightarrow>
          (fmt = ''text'' \<or> fmt = ''json'') \<longrightarrow>
          get_from_cache now_get key c0 = (None, c) \<longrightarrow>
            get_transcript cfg p now_get now rid vid lang fmt x_api_key c0
              = (Inl \<lparr>status_code = 404, error_code = ''no_transcript'', diagnostic = None\<rparr>, c))"
proof (intro conjI impI)
  show body: "fetch_transcript cfg p now rid vid languages fmt key c = (Inl NoTranscriptFound, c)"
    using cat none by (rule fetch_transcript_exhausted)
  show err: "http_error_of NoTranscriptFound
           = \<lparr>status_code = 404, error_code = ''no_transcript'', diagnostic = None\<rparr>"
    by (simp add: http_error_of_def)
  assume langs: "languages = languages_of lang"
    and key: "key = get_cache_key vid (join '','' languages)"
    and auth: "api_key cfg = [] \<or> (x_api_key \<noteq> Some [] \<and> x_api_key = Some (api_key cfg))"
    and fmt: "fmt = ''text'' \<or> fmt = ''json''"
    and miss: "get_from_cache now_get key c0 = (None, c)"
  from auth have pass: "(api_key cfg \<noteq> [] \<and>
      (x_api_key = None \<or> x_api_key = Some [] \<or> x_api_key \<noteq> Some (api_key cfg))) = False"
    by auto
  from fmt have valid: "(fmt \<notin> set [''text'', ''json'']) = False" by auto
  have "get_transcript cfg p now_get now rid vid lang fmt x_api_key c0
      = (case get_from_cache now_get key c0 of
           (Some cached_result, c1) \<Rightarrow>
             (Inr (render fmt (cached_result\<lparr>res_request_id := rid\<rparr>) rid), c1)
         | (None, c1) \<Rightarrow>
             (case fetch_transcript cfg p now rid vid languages fmt key c1 of
                (Inl e, c2) \<Rightarrow> (Inl (http_error_of e), c2)
              | (Inr r, c2) \<Rightarrow> (Inr r, c2)))"
    by (simp only: get_transcript_def Let_def langs key pass valid if_False)
  with miss body err
  show "get_transcript cfg p now_get now rid vid lang fmt x_api_key c0
              = (Inl \<lparr>status_code = 404, error_code = ''no_transcript'', diagnostic = None\<rparr>, c)"
    by simp
qed

theorem exhaustion_is_no_transcript_witness:
  "list_transcripts example_provider ''v'' = Inr [Track ''de'', Track ''en''] \<and>
   try_candidate example_provider [Track ''de'', Track ''en''] ''yy'' = None \<and>
   try_candidate example_provider [Track ''de'', Track ''en''] ''zz'' = None \<and>
   fetch_transcript example_config example_provider 20 ''req-1'' ''v'' [''yy'', ''zz''] ''json''
       ''v:yy,zz'' (example_cache 1 2)
     = (Inl NoTranscriptFound, example_cache 1 2) \<and>
   get_from_cache 10 ''v:yy'' [] = (None, []) \<and>
   get_transcript example_config example_provider 10 20 ''req-1'' ''v'' (Some ''yy'') ''json'' None []
     = (Inl \<lparr>status_code = 404, error_code = ''no_transcript'', diagnostic = None\<rparr>, [])"
proof -
  have cat: "list_transcripts example_provider ''v'' = Inr [Track ''de'', Track ''en'']"
    by (simp add: example_provider_def)
  have yy: "try_candidate example_provider [Track ''de'', Track ''en''] ''yy'' = None"
    by (simp add: try_candidate_def example_provider_def example_translate_def)
  have zz: "try_candidate example_provider [Track ''de'', Track ''en''] ''zz'' = None"
    by (simp add: try_candidate_def example_provider_def example_translate_def)
  from yy zz have two: "\<forall>l \<in> set [''yy'', ''zz'']. try_candidate example_provider [Track ''de'', Track ''en''] l = None"
    by simp
  from yy have one: "\<forall>l \<in> set [''yy'']. try_candidate example_provider [Track ''de'', Track ''en''] l = None"
    by simp
  have miss: "get_from_cache 10 ''v:yy'' [] = (None, [])" by (simp add: get_from_cache_def)
  have langs: "[''yy''] = languages_of (Some ''yy'')" by (simp add: languages_of_def)
  have key: "''v:yy'' = get_cache_key ''v'' (join '','' [''yy''])" by (simp add: get_cache_key_def)
  have auth: "api_key example_config = [] \<or> (None \<noteq> Some [] \<and> None = Some (api_key example_config))"
    by (simp add: example_config_def)
  have body: "fetch_transcript example_config example_provider 20 ''req-1'' ''v'' [''yy'', ''zz''] ''json''
       ''v:yy,zz'' (example_cache 1 2) = (Inl NoTranscriptFound, example_cache 1 2)"
    using exhaustion_is_no_transcript [OF cat two] by blast
  have whole: "get_transcript example_config example_provider 10 20 ''req-1'' ''v'' (Some ''yy'') ''json'' None []
     = (Inl \<lparr>status_code = 404, error_code = ''no_transcript'', diagnostic = None\<rparr>, [])"
    using exhaustion_is_no_transcript [OF cat one, where lang = "Some ''yy''" and key = "''v:yy''"
        and cfg = example_config and x_api_key = None and fmt = "''json''" and now_get = 10
        and ?c0.0 = "[]" and c = "[]" and now = 20 and rid = "''req-1''"] langs key auth miss
    by blast
  from cat yy zz body miss whole show ?thesis by blast
qed

subsection \<open>No cache write on failure\<close>

text \<open>
  C8. No cache write on failure: when \<open>get_transcript\<close> ends in an error, the cache it
  leaves is the cache it found, or that cache with the request's own key deleted (the
  lazy deletion of a stale entry by \<open>get_from_cache\<close>); so every entry of the cache
  afterwards was there before, unchanged, and nothing was inserted. Unless the
  error is the 401 or the 400 raised before the cache is read, the request's key has
  no entry afterwards. The body of the \<open>try\<close> leaves the cache as it found it whenever
  it raises: \<open>set_cache\<close> is its last step.
\<close>

theorem no_cache_write_on_failure:
  assumes run: "get_transcript cfg p now_get now_set rid vid lang fmt x_api_key c = (Inl err, c')"
  shows "(c' = c \<or> c' = AList.delete (get_cache_key vid (join '','' (languages_of lang))) c) \<and>
         (\<forall>k e. map_of c' k = Some e \<longrightarrow> map_of c k = Some e) \<and>
         length c' \<le> length c \<and>
         (status_code err \<noteq> 401 \<longrightarrow> status_code err \<noteq> 400 \<longrightarrow>
            map_of c' (get_cache_key vid (join '','' (languages_of lang))) = None) \<and>
         (\<forall>languages key c1 e c2.
            fetch_transcript cfg p now_set rid vid languages fmt key c1 = (Inl e, c2) \<longrightarrow> c2 = c1)"
proof -
  let ?key = "get_cache_key vid (join '','' (languages_of lang))"
  have body: "\<forall>languages key c1 e c2.
            fetch_transcript cfg p now_set rid vid languages fmt key c1 = (Inl e, c2) \<longrightarrow> c2 = c1"
    using fetch_transcript_error_frame by blast
  have sub: "\<forall>k e. map_of (AList.delete ?key c) k = Some e \<longrightarrow> map_of c k = Some e"
    by (simp add: AList.delete_conv')
  have len: "length (AList.delete ?key c) \<le> length c" by (rule AList.length_delete_le)
  show ?thesis
  proof (cases "api_key cfg \<noteq> [] \<and>
      (x_api_key = None \<or> x_api_key = Some [] \<or> x_api_key \<noteq> Some (api_key cfg))")
    case True
    with run have "c' = c" "status_code err = 401" by (auto simp: get_transcript_def)
    with body show ?thesis by simp
  next
    case pass: False
    show ?thesis
    proof (cases "fmt \<notin> set [''text'', ''json'']")
      case True
      with pass run have "c' = c" "status_code err = 400" by (auto simp: get_transcript_def)
      with body show ?thesis by simp
    next
      case valid: False
      obtain hit c1 where look: "get_from_cache now_get ?key c = (hit, c1)"
        by (cases "get_from_cache now_get ?key c") auto
      from pass have pass': "(api_key cfg \<noteq> [] \<and>
          (x_api_key = None \<or> x_api_key = Some [] \<or> x_api_key \<noteq> Some (api_key cfg))) = False"
        by blast
      from valid have valid': "(fmt \<notin> set [''text'', ''json'']) = False" by blast
      from run have "(case get_from_cache now_get ?key c of
           (Some cached_result, c1) \<Rightarrow>
             (Inr (render fmt (cached_result\<lparr>res_request_id := rid\<rparr>) rid), c1)
         | (None, c1) \<Rightarrow>
             (case fetch_transcript cfg p now_set rid vid (languages_of lang) fmt ?key c1 of
                (Inl e, c2) \<Rightarrow> (Inl (http_error_of e), c2)
              | (Inr r, c2) \<Rightarrow> (Inr r, c2))) = (Inl err, c')"
        by (simp only: get_transcript_def Let_def pass' valid' if_False)
      with look
      have after: "(case hit of
           Some cached_result \<Rightarrow>
             (Inr (render fmt (cached_result\<lparr>res_request_id := rid\<rparr>) rid), c1)
         | None \<Rightarrow>
             (case fetch_transcript cfg p now_set rid vid (languages_of lang) fmt ?key c1 of
                (Inl e, c2) \<Rightarrow> (Inl (http_error_of e), c2)
              | (Inr r, c2) \<Rightarrow> (Inr r, c2))) = (Inl err, c')"
        by (cases hit) simp_all
      then have miss: "hit = None" by (cases hit) auto
      obtain res c2
        where fetched: "fetch_transcript cfg p now_set rid vid (languages_of lang) fmt ?key c1 = (res, c2)"
        by (cases "fetch_transcript cfg p now_set rid vid (languages_of lang) fmt ?key c1") auto
      from after miss fetched obtain e where e: "res = Inl e" "c' = c2"
        by (cases res) auto
      from fetched e have "c2 = c1" using fetch_transcript_error_frame by blast
      with e have c': "c' = c1" by simp
      from look miss have "(c1 = c \<and> map_of c ?key = None) \<or> c1 = AList.delete ?key c"
        by (auto simp: get_from_cache_def split: option.splits if_splits)
      then show ?thesis
      proof
        assume "c1 = c \<and> map_of c ?key = None"
        with c' body show ?thesis by simp
      next
        assume "c1 = AList.delete ?key c"
        with c' have del: "c' = AList.delete ?key c" by simp
        have "map_of (AList.delete ?key c) ?key = None" by (simp add: AList.delete_conv')
        with del sub len body show ?thesis by simp
      qed
    qed
  qed
qed

lemma example_stale_then_gone:
  "get_transcript example_config example_provider 3600000002 3600000003 ''req-2'' ''gone'' (Some ''en'')
       ''json'' None
       [(''gone:en'', \<lparr>data = example_result ''gone'', expires_at = 3600000001\<rparr>),
        (''v:en'', \<lparr>data = example_result ''v'', expires_at = 3600000001\<rparr>)]
     = (Inl \<lparr>status_code = 404, error_code = ''video_unavailable'', diagnostic = None\<rparr>,
        [(''v:en'', \<lparr>data = example_result ''v'', expires_at = 3600000001\<rparr>)])"
  by (simp add: get_transcript_def Let_def languages_of_def get_cache_key_def get_from_cache_def
      fetch_transcript_def example_provider_def example_config_def http_error_of_def
      AList.delete_eq)

theorem no_cache_write_on_failure_witness:
  "get_transcript example_config example_provider 3600000002 3600000003 ''req-2'' ''gone'' (Some ''en'')
       ''json'' None
       [(''gone:en'', \<lparr>data = example_result ''gone'', expires_at = 3600000001\<rparr>),
        (''v:en'', \<lparr>data = example_result ''v'', expires_at = 3600000001\<rparr>)]
     = (Inl \<lparr>status_code = 404, error_code = ''video_unavailable'', diagnostic = None\<rparr>,
        [(''v:en'', \<lparr>data = example_result ''v'', expires_at = 3600000001\<rparr>)]) \<and>
   map_of [(''v:en'', \<lparr>data = example_result ''v'', expires_at = 3600000001\<rparr>)]
       (get_cache_key ''gone'' (join '','' (languages_of (Some ''en'')))) = None \<and>
   length [(''v:en'', \<lparr>data = example_result ''v'', expires_at = 3600000001\<rparr>)]
     \<le> length [(''gone:en'', \<lparr>data = example_result ''gone'', expires_at = 3600000001\<rparr>),
               (''v:en'', \<lparr>data = example_result ''v'', expires_at = 3600000001\<rparr>)]"
  using no_cache_write_on_failure [OF example_stale_then_gone] example_stale_then_gone
  by simp

subsection \<open>The language of a result\<close>

lemma get_transcript_miss_success:
  assumes run: "get_transcript cfg p now_get now_set rid vid lang fmt x_api_key c = (Inr resp, c')"
    and miss: "fst (get_from_cache now_get (get_cache_key vid (join '','' (languages_of lang))) c) = None"
  shows "\<exists>c1. get_from_cache now_get (get_cache_key vid (join '','' (languages_of lang))) c = (None, c1) \<and>
              fetch_transcript cfg p now_set rid vid (languages_of lang) fmt
                (get_cache_key vid (join '','' (languages_of lang))) c1 = (Inr resp, c')"
proof -
  let ?key = "get_cache_key vid (join '','' (languages_of lang))"
  obtain c1 where look: "get_from_cache now_get ?key c = (None, c1)"
    using miss by (cases "get_from_cache now_get ?key c") auto
  have pass: "(api_key cfg \<noteq> [] \<and>
      (x_api_key = None \<or> x_api_key = Some [] \<or> x_api_key \<noteq> Some (api_key cfg))) = False"
  proof (rule ccontr)
    assume "(api_key cfg \<noteq> [] \<and>
      (x_api_key = None \<or> x_api_key = Some [] \<or> x_api_key \<noteq> Some (api_key cfg))) \<noteq> False"
    then have refused: "(api_key cfg \<noteq> [] \<and>
      (x_api_key = None \<or> x_api_key = Some [] \<or> x_api_key \<noteq> Some (api_key cfg))) = True"
      by blast
    have "get_transcript cfg p now_get now_set rid vid lang fmt x_api_key c
            = (Inl \<lparr>status_code = 401, error_code = ''unauthorized'', diagnostic = None\<rparr>, c)"
      by (simp only: get_transcript_def refused if_True)
    with run show False by simp
  qed
  have valid: "(fmt \<notin> set [''text'', ''json'']) = False"
  proof (rule ccontr)
    assume "(fmt \<notin> set [''text'', ''json'']) \<noteq> False"
    then have refused: "(fmt \<notin> set [''text'', ''json'']) = True" by blast
    have "get_transcript cfg p now_get now_set rid vid lang fmt x_api_key c
            = (Inl \<lparr>status_code = 400, error_code = ''invalid_format'', diagnostic = None\<rparr>, c)"
      by (simp only: get_transcript_def pass refused if_True if_False)
    with run show False by simp
  qed
  from run have "(case get_from_cache now_get ?key c of
           (Some cached_result, c1) \<Rightarrow>
             (Inr (render fmt (cached_result\<lparr>res_request_id := rid\<rparr>) rid), c1)
         | (None, c1) \<Rightarrow>
             (case fetch_transcript cfg p now_set rid vid (languages_of lang) fmt ?key c1 of
                (Inl e, c2) \<Rightarrow> (Inl (http_error_of e), c2)
              | (Inr r, c2) \<Rightarrow> (Inr r, c2))) = (Inr resp, c')"
    by (simp only: get_transcript_def Let_def pass valid if_False)
  with look have "(case fetch_transcript cfg p now_set rid vid (languages_of lang) fmt ?key c1 of
                (Inl e, c2) \<Rightarrow> (Inl (http_error_of e), c2)
              | (Inr r, c2) \<Rightarrow> (Inr r, c2)) = (Inr resp, c')"
    by simp
  then have "fetch_transcript cfg p now_set rid vid (languages_of lang) fmt ?key c1 = (Inr resp, c')"
    by (auto split: prod.splits sum.splits)
  with look show ?thesis by blast
qed

text \<open>
  C10. On every successful resolution that was not served from the cache, the loop has
  selected a track together with a language \<open>l\<close> that is one of the candidate
  languages of the request and is not empty, so \<open>language_used or "unknown"\<close> is \<open>l\<close>
  and the fallback is not taken; the result stored in the cache under the request's
  key, which is also the result the response is rendered from, has
  \<open>language_used = l\<close>. For every list of candidates the loop leaves both variables
  \<open>None\<close> or sets both, the language being one of the list.
\<close>

theorem language_used_is_candidate:
  assumes run: "get_transcript cfg p now_get now_set rid vid lang fmt x_api_key c = (Inr resp, c')"
    and miss: "fst (get_from_cache now_get (get_cache_key vid (join '','' (languages_of lang))) c) = None"
  shows "(\<exists>cat t l r.
            list_transcripts p vid = Inr cat \<and>
            select_transcript p cat (languages_of lang) (None, None) = (Some t, Some l) \<and>
            l \<in> set (languages_of lang) \<and> l \<noteq> [] \<and> or_unknown (Some l) = l \<and>
            res_language_used r = l \<and>
            map_of c' (get_cache_key vid (join '','' (languages_of lang)))
              = Some \<lparr>data = r, expires_at = now_set + timedelta_seconds (cache_ttl_seconds cfg)\<rparr> \<and>
            resp = render fmt r rid) \<and>
         (\<forall>cat languages.
            select_transcript p cat languages (None, None) = (None, None) \<or>
            (\<exists>t l. select_transcript p cat languages (None, None) = (Some t, Some l) \<and>
                   l \<in> set languages))"
proof
  let ?key = "get_cache_key vid (join '','' (languages_of lang))"
  from get_transcript_miss_success [OF run miss] obtain c1
    where body: "fetch_transcript cfg p now_set rid vid (languages_of lang) fmt ?key c1 = (Inr resp, c')"
    by blast
  from fetch_transcript_success [OF body] obtain cat t l items texts r
    where cat: "list_transcripts p vid = Inr cat"
      and first: "first_success p cat (languages_of lang) = Some (t, l)"
      and r: "build_result vid (join '' '' texts) (Some l) rid fmt items = Inr r"
      and put: "set_cache (cache_ttl_seconds cfg) now_set ?key r c1 = Inr c'"
      and resp: "resp = render fmt r rid"
    by blast
  from first have sel: "select_transcript p cat (languages_of lang) (None, None) = (Some t, Some l)"
    by (simp add: select_transcript_first_success)
  from first have mem: "l \<in> set (languages_of lang)" by (rule first_success_mem)
  with languages_of_nonempty_strings [of lang] have ne: "l \<noteq> []" by auto
  then have fallback: "or_unknown (Some l) = l" by (rule or_unknown_candidate)
  from r fallback have used: "res_language_used r = l" by (simp add: build_result_language)
  from put have stored: "map_of c' ?key =
      Some \<lparr>data = r, expires_at = now_set + timedelta_seconds (cache_ttl_seconds cfg)\<rparr>"
    by (rule set_cache_stores)
  from cat sel mem ne fallback used stored resp
  show "\<exists>cat t l r.
            list_transcripts p vid = Inr cat \<and>
            select_transcript p cat (languages_of lang) (None, None) = (Some t, Some l) \<and>
            l \<in> set (languages_of lang) \<and> l \<noteq> [] \<and> or_unknown (Some l) = l \<and>
            res_language_used r = l \<and>
            map_of c' ?key
              = Some \<lparr>data = r, expires_at = now_set + timedelta_seconds (cache_ttl_seconds cfg)\<rparr> \<and>
            resp = render fmt r rid"
    by blast
next
  show "\<forall>cat languages.
            select_transcript p cat languages (None, None) = (None, None) \<or>
            (\<exists>t l. select_transcript p cat languages (None, None) = (Some t, Some l) \<and>
                   l \<in> set languages)"
  proof (intro allI)
    fix cat languages
    show "select_transcript p cat languages (None, None) = (None, None) \<or>
            (\<exists>t l. select_transcript p cat languages (None, None) = (Some t, Some l) \<and>
                   l \<in> set languages)"
    proof (cases "first_success p cat languages")
      case None
      then show ?thesis by (simp add: select_transcript_first_success)
    next
      case (Some tlang)
      obtain t l where "tlang = (t, l)" by (cases tlang) auto
      with Some have "first_success p cat languages = Some (t, l)" by simp
      then have "select_transcript p cat languages (None, None) = (Some t, Some l) \<and> l \<in> set languages"
        by (simp add: select_transcript_first_success first_success_mem)
      then show ?thesis by blast
    qed
  qed
qed

lemma example_default_request:
  "get_transcript example_config example_provider 10 20 ''req-1'' ''v'' None ''json'' None []
     = (Inr (JsonResponse
          \<lparr>res_video_id = ''v'', res_text = ''A B C'', res_language_used = ''en'',
           res_request_id = ''req-1'',
           res_segments = Some
             [\<lparr>seg_text = ''A'', seg_start = PyFloat 0, seg_duration = PyFloat 1\<rparr>,
              \<lparr>seg_text = ''B'', seg_start = PyFloat 1, seg_duration = PyFloat 1\<rparr>,
              \<lparr>seg_text = ''C'', seg_start = PyFloat 2, seg_duration = PyInt 0\<rparr>]\<rparr>),
        [(''v:pt-BR,pt,pt-PT,en'',
          \<lparr>data =
             \<lparr>res_video_id = ''v'', res_text = ''A B C'', res_language_used = ''en'',
              res_request_id = ''req-1'',
              res_segments = Some
                [\<lparr>seg_text = ''A'', seg_start = PyFloat 0, seg_duration = PyFloat 1\<rparr>,
                 \<lparr>seg_text = ''B'', seg_start = PyFloat 1, seg_duration = PyFloat 1\<rparr>,
                 \<lparr>seg_text = ''C'', seg_start = PyFloat 2, seg_duration = PyInt 0\<rparr>]\<rparr>,
           expires_at = 3600000020\<rparr>)])"
  by (simp add: get_transcript_def Let_def languages_of_def DEFAULT_LANGUAGES_def get_cache_key_def
      get_from_cache_def fetch_transcript_def example_provider_def example_config_def
      example_translate_def example_items_def build_result_def or_unknown_def render_def
      set_cache_def CACHE_MAX_SIZE_def timedelta_seconds_def)

theorem language_used_is_candidate_witness:
  "fst (get_from_cache 10 (get_cache_key ''v'' (join '','' (languages_of None))) []) = None \<and>
   (\<exists>cat t l r.
      list_transcripts example_provider ''v'' = Inr cat \<and>
      select_transcript example_provider cat (languages_of None) (None, None) = (Some t, Some l) \<and>
      l \<in> set (languages_of None) \<and> l \<noteq> [] \<and> or_unknown (Some l) = l \<and>
      res_language_used r = l \<and>
      map_of [(''v:pt-BR,pt,pt-PT,en'',
          \<lparr>data =
             \<lparr>res_video_id = ''v'', res_text = ''A B C'', res_language_used = ''en'',
              res_request_id = ''req-1'',
              res_segments = Some
                [\<lparr>seg_text = ''A'', seg_start = PyFloat 0, seg_duration = PyFloat 1\<rparr>,
                 \<lparr>seg_text = ''B'', seg_start = PyFloat 1, seg_duration = PyFloat 1\<rparr>,
                 \<lparr>seg_text = ''C'', seg_start = PyFloat 2, seg_duration = PyInt 0\<rparr>]\<rparr>,
           expires_at = 3600000020\<rparr>)]
        (get_cache_key ''v'' (join '','' (languages_of None)))
        = Some \<lparr>data = r, expires_at = 20 + timedelta_seconds (cache_ttl_seconds example_config)\<rparr> \<and>
      JsonResponse
          \<lparr>res_video_id = ''v'', res_text = ''A B C'', res_language_used = ''en'',
           res_request_id = ''req-1'',
           res_segments = Some
             [\<lparr>seg_text = ''A'', seg_start = PyFloat 0, seg_duration = PyFloat 1\<rparr>,
              \<lparr>seg_text = ''B'', seg_start = PyFloat 1, seg_duration = PyFloat 1\<rparr>,
              \<lparr>seg_text = ''C'', seg_start = PyFloat 2, seg_duration = PyInt 0\<rparr>]\<rparr>
        = render ''json'' r ''req-1'')"
proof -
  have miss: "fst (get_from_cache 10 (get_cache_key ''v'' (join '','' (languages_of None))) []) = None"
    by (simp add: get_from_cache_def)
  from language_used_is_candidate [OF example_default_request miss] miss
  show ?thesis by blast
qed

subsection \<open>Evaluations\<close>

text \<open>
  C1 at a concrete input. A \<open>format=text\<close> request for video \<open>v\<close> with \<open>lang=en\<close> on
  an empty cache builds no segments (line 223 guards them) and stores the result
  without the \<open>segments\<close> key; a \<open>format=json\<close> request for the same video and
  language inside the TTL is served from that entry, and its body has no segments.
  The same \<open>format=json\<close> request on an empty cache has them.
\<close>

theorem segments_not_cached_for_text_request:
  "get_transcript example_config example_provider 10 20 ''req-1'' ''v'' (Some ''en'') ''text'' None []
     = (Inr (TextResponse ''v'' ''A B C'' ''req-1''),
        [(''v:en'', \<lparr>data = example_result ''v'', expires_at = 3600000020\<rparr>)]) \<and>
   get_transcript example_config example_provider 30 40 ''req-2'' ''v'' (Some ''en'') ''json'' None
       [(''v:en'', \<lparr>data = example_result ''v'', expires_at = 3600000020\<rparr>)]
     = (Inr (JsonResponse
          \<lparr>res_video_id = ''v'', res_text = ''A B C'', res_language_used = ''en'',
           res_request_id = ''req-2'', res_segments = None\<rparr>),
        [(''v:en'', \<lparr>data = example_result ''v'', expires_at = 3600000020\<rparr>)]) \<and>
   get_transcript example_config example_provider 30 40 ''req-2'' ''v'' (Some ''en'') ''json'' None []
     = (Inr (JsonResponse
          \<lparr>res_video_id = ''v'', res_text = ''A B C'', res_language_used = ''en'',
           res_request_id = ''req-2'',
           res_segments = Some
             [\<lparr>seg_text = ''A'', seg_start = PyFloat 0, seg_duration = PyFloat 1\<rparr>,
              \<lparr>seg_text = ''B'', seg_start = PyFloat 1, seg_duration = PyFloat 1\<rparr>,
              \<lparr>seg_text = ''C'', seg_start = PyFloat 2, seg_duration = PyInt 0\<rparr>]\<rparr>),
        [(''v:en'',
          \<lparr>data =
             \<lparr>res_video_id = ''v'', res_text = ''A B C'', res_language_used = ''en'',
              res_request_id = ''req-2'',
              res_segments = Some
                [\<lparr>seg_text = ''A'', seg_start = PyFloat 0, seg_duration = PyFloat 1\<rparr>,
                 \<lparr>seg_text = ''B'', seg_start = PyFloat 1, seg_duration = PyFloat 1\<rparr>,
                 \<lparr>seg_text = ''C'', seg_start = PyFloat 2, seg_duration = PyInt 0\<rparr>]\<rparr>,
           expires_at = 3600000040\<rparr>)])"
  by (simp add: get_transcript_def Let_def languages_of_def get_cache_key_def
      get_from_cache_def fetch_transcript_def example_provider_def example_config_def
      example_items_def example_result_def build_result_def or_unknown_def render_def
      set_cache_def CACHE_MAX_SIZE_def timedelta_seconds_def)

text \<open>
  C9 at a concrete input. The key of line 160 joins the languages with a comma and
  puts a colon after the video, so it cannot tell a language that contains a comma from
  a list, nor a colon of the video from the separator. A request for video \<open>v\<close> with
  \<open>lang=pt-BR,pt,pt-PT,en\<close> has the one-element language list, a request without
  \<open>lang\<close> the default list of four, and both get the same key; the second request is
  answered from the entry of the first, with the language the first one found. The
  lists \<open>[en]\<close> and \<open>[en, pt]\<close> do get two keys.
\<close>

theorem cache_key_collision:
  "languages_of (Some ''pt-BR,pt,pt-PT,en'') = [''pt-BR,pt,pt-PT,en''] \<and>
   languages_of None = [''pt-BR'', ''pt'', ''pt-PT'', ''en''] \<and>
   languages_of (Some ''pt-BR,pt,pt-PT,en'') \<noteq> languages_of None \<and>
   get_cache_key ''v'' (join '','' (languages_of (Some ''pt-BR,pt,pt-PT,en'')))
     = get_cache_key ''v'' (join '','' (languages_of None)) \<and>
   get_cache_key ''a:b'' (join '','' [''c'']) = get_cache_key ''a'' (join '','' [''b:c'']) \<and>
   get_cache_key ''v'' (join '','' [''en'']) \<noteq> get_cache_key ''v'' (join '','' [''en'', ''pt'']) \<and>
   fst (get_transcript example_config example_provider 30 40 ''req-2'' ''v''
          (Some ''pt-BR,pt,pt-PT,en'') ''text'' None
          (snd (get_transcript example_config example_provider 10 20 ''req-1'' ''v'' None ''json''
                  None [])))
     = Inr (TextResponse ''v'' ''A B C'' ''req-2'') \<and>
   fst (get_transcript example_config example_provider 30 40 ''req-2'' ''v''
          (Some ''pt-BR,pt,pt-PT,en'') ''text'' None [])
     = Inl \<lparr>status_code = 404, error_code = ''no_transcript'', diagnostic = None\<rparr>"
  by (simp add: get_transcript_def Let_def languages_of_def DEFAULT_LANGUAGES_def get_cache_key_def
      get_from_cache_def fetch_transcript_def example_provider_def example_config_def
      example_translate_def example_items_def build_result_def or_unknown_def render_def
      set_cache_def CACHE_MAX_SIZE_def timedelta_seconds_def http_error_of_def)

end
